theory Spec2Isabelle
  imports Complex_Main "HOL-Library.Log_Nat"
begin

section \<open>Python floats\<close>

text \<open>
  A Python \<open>float\<close> is an IEEE 754 double. \<open>Finite s m e\<close> is the number
  \<open>(-1)^s * m * 2^e\<close>; the doubles are the values with \<open>m < 2^53\<close> and
  \<open>- 1074 \<le> e \<le> 971\<close>, written with the smallest exponent the mantissa allows, so that
  equal numbers are equal terms (\<open>0.0\<close> is \<open>Finite False 0 (- 1074)\<close>, \<open>-0.0\<close> is
  \<open>Finite True 0 (- 1074)\<close>). Every operation below returns a double in this form.
\<close>

datatype pyfloat = Finite bool nat int | Inf bool | NaN

text \<open>The quotient \<open>n / d\<close> rounded to the nearest integer, a tie going to the even one.\<close>

definition nearest_even :: "int \<Rightarrow> int \<Rightarrow> int" where
  "nearest_even n d =
     (let f = n div d; r = n mod d
      in if 2 * r < d then f else if d < 2 * r then f + 1 else if even f then f else f + 1)"

text \<open>The integer part of the binary logarithm of \<open>p / q\<close>, for positive \<open>p\<close> and \<open>q\<close>.\<close>

definition ilog2 :: "nat \<Rightarrow> nat \<Rightarrow> int" where
  "ilog2 p q =
     (let d = bitlen (int p) - bitlen (int q)
      in if int q * 2 ^ nat d \<le> int p * 2 ^ nat (- d) then d else d - 1)"

text \<open>
  The exponent of the double that \<open>p / q * 2^e\<close> rounds to: 52 below the exponent of the
  number, and never below that of the subnormal doubles.
\<close>

definition quantum :: "nat \<Rightarrow> nat \<Rightarrow> int \<Rightarrow> int" where
  "quantum p q e = max (e + ilog2 p q) (- 1022) - 52"

text \<open>
  The double nearest to \<open>(-1)^s * p / q * 2^e\<close>, for positive \<open>p\<close> and \<open>q\<close>: round to
  nearest, ties to even. A number too small rounds to a zero of its sign, a number that
  rounds to \<open>2^1024\<close> or more overflows to an infinity.
\<close>

definition fl_round :: "bool \<Rightarrow> nat \<Rightarrow> nat \<Rightarrow> int \<Rightarrow> pyfloat" where
  "fl_round s p q e =
     (let ex = quantum p q e;
          n = nearest_even (int p * 2 ^ nat (e - ex)) (int q * 2 ^ nat (ex - e))
      in if n = 0 then Finite s 0 (- 1074)
         else if n = 2 ^ 53 then (if 971 < ex + 1 then Inf s else Finite s (2 ^ 52) (ex + 1))
         else if 971 < ex then Inf s
         else Finite s (nat n) ex)"

definition smant :: "bool \<Rightarrow> nat \<Rightarrow> int" where
  "smant s m = (if s then - int m else int m)"

fun fl_is_zero :: "pyfloat \<Rightarrow> bool" where
  "fl_is_zero (Finite s m e) = (m = 0)"
| "fl_is_zero (Inf s) = False"
| "fl_is_zero NaN = False"

fun fl_neg :: "pyfloat \<Rightarrow> pyfloat" where
  "fl_neg (Finite s m e) = Finite (\<not> s) m e"
| "fl_neg (Inf s) = Inf (\<not> s)"
| "fl_neg NaN = NaN"

text \<open>
  Addition. The exact sum of two doubles is an integer multiple of the smaller power of
  two; an exact sum of zero is \<open>-0.0\<close> only when both operands are \<open>-0.0\<close>.
\<close>

fun fl_add :: "pyfloat \<Rightarrow> pyfloat \<Rightarrow> pyfloat" where
  "fl_add (Finite s1 m1 e1) (Finite s2 m2 e2) =
     (let ex = min e1 e2;
          t = smant s1 m1 * 2 ^ nat (e1 - ex) + smant s2 m2 * 2 ^ nat (e2 - ex)
      in if t = 0 then Finite (s1 \<and> s2) 0 (- 1074)
         else fl_round (t < 0) (nat \<bar>t\<bar>) 1 ex)"
| "fl_add (Finite s m e) (Inf b) = Inf b"
| "fl_add (Inf a) (Finite s m e) = Inf a"
| "fl_add (Inf a) (Inf b) = (if a = b then Inf a else NaN)"
| "fl_add NaN y = NaN"
| "fl_add (Finite s m e) NaN = NaN"
| "fl_add (Inf a) NaN = NaN"

definition fl_sub :: "pyfloat \<Rightarrow> pyfloat \<Rightarrow> pyfloat" where
  "fl_sub x y = fl_add x (fl_neg y)"

fun fl_mul :: "pyfloat \<Rightarrow> pyfloat \<Rightarrow> pyfloat" where
  "fl_mul (Finite s1 m1 e1) (Finite s2 m2 e2) =
     (if m1 = 0 \<or> m2 = 0 then Finite (s1 \<noteq> s2) 0 (- 1074)
      else fl_round (s1 \<noteq> s2) (m1 * m2) 1 (e1 + e2))"
| "fl_mul (Finite s m e) (Inf b) = (if m = 0 then NaN else Inf (s \<noteq> b))"
| "fl_mul (Inf a) (Finite s m e) = (if m = 0 then NaN else Inf (a \<noteq> s))"
| "fl_mul (Inf a) (Inf b) = Inf (a \<noteq> b)"
| "fl_mul NaN y = NaN"
| "fl_mul (Finite s m e) NaN = NaN"
| "fl_mul (Inf a) NaN = NaN"

text \<open>The IEEE quotient; Python never reaches it with a zero divisor.\<close>

fun fl_div :: "pyfloat \<Rightarrow> pyfloat \<Rightarrow> pyfloat" where
  "fl_div (Finite s1 m1 e1) (Finite s2 m2 e2) =
     (if m2 = 0 then (if m1 = 0 then NaN else Inf (s1 \<noteq> s2))
      else if m1 = 0 then Finite (s1 \<noteq> s2) 0 (- 1074)
      else fl_round (s1 \<noteq> s2) m1 m2 (e1 - e2))"
| "fl_div (Finite s m e) (Inf b) = Finite (s \<noteq> b) 0 (- 1074)"
| "fl_div (Inf a) (Finite s m e) = Inf (a \<noteq> s)"
| "fl_div (Inf a) (Inf b) = NaN"
| "fl_div NaN y = NaN"
| "fl_div (Finite s m e) NaN = NaN"
| "fl_div (Inf a) NaN = NaN"

text \<open>
  A decimal literal \<open>p / q\<close>, with \<open>q\<close> positive, as Python reads it (\<open>0.01\<close>, \<open>77.2\<close>, and
  the ints \<open>50\<close>, \<open>100\<close>, \<open>1000\<close>, \<open>3600\<close> where they meet a float): the nearest double.
\<close>

definition float_of_decimal :: "int \<Rightarrow> int \<Rightarrow> pyfloat" where
  "float_of_decimal p q =
     (if p = 0 then Finite False 0 (- 1074) else fl_round (p < 0) (nat \<bar>p\<bar>) (nat q) 0)"

section \<open>Python values and exceptions\<close>

text \<open>
  The dashboard (\<open>app.py\<close>) is glue over parsed JSON. A parsed response is a Python value:
  \<open>None\<close>, a bool, an int of any size, a float, a string, a list or a dict with string
  keys. A dict is an association list in the order of the upstream document.
\<close>

datatype json =
    JNull
  | JBool bool
  | JInt int
  | JFloat pyfloat
  | JStr string
  | JArr "json list"
  | JObj "(string \<times> json) list"

text \<open>
  The exceptions the modelled statements raise. \<open>KeyError\<close> carries the missing key;
  \<open>RequestException\<close> is any failure of \<open>requests.get(...).json()\<close> (connection, timeout,
  undecodable body) with its message.
\<close>

datatype exn =
    KeyError json
  | IndexError
  | TypeError
  | AttributeError
  | ZeroDivisionError
  | OverflowError
  | ValueError string
  | RequestException string

type_synonym 'a result = "exn + 'a"

text \<open>Sequencing of statements that may raise: the first exception ends the block.\<close>

definition then_e :: "'a result \<Rightarrow> ('a \<Rightarrow> 'b result) \<Rightarrow> 'b result" where
  "then_e m f = (case m of Inl e \<Rightarrow> Inl e | Inr x \<Rightarrow> f x)"

text \<open>Truth value testing (\<open>if x:\<close>, \<open>a and b\<close>).\<close>

fun truthy :: "json \<Rightarrow> bool" where
  "truthy JNull = False"
| "truthy (JBool b) = b"
| "truthy (JInt i) = (i \<noteq> 0)"
| "truthy (JFloat x) = (\<not> fl_is_zero x)"
| "truthy (JStr s) = (s \<noteq> [])"
| "truthy (JArr xs) = (xs \<noteq> [])"
| "truthy (JObj kvs) = (kvs \<noteq> [])"

text \<open>Substring test, for \<open>'k' in x\<close> when \<open>x\<close> is a string.\<close>

fun is_prefix :: "string \<Rightarrow> string \<Rightarrow> bool" where
  "is_prefix [] ys = True"
| "is_prefix (x # xs) [] = False"
| "is_prefix (x # xs) (y # ys) = (x = y \<and> is_prefix xs ys)"

fun is_substring :: "string \<Rightarrow> string \<Rightarrow> bool" where
  "is_substring xs [] = (xs = [])"
| "is_substring xs (y # ys) = (is_prefix xs (y # ys) \<or> is_substring xs ys)"

text \<open>
  \<open>'k' in x\<close>: key membership for a dict, element membership for a list, substring for a
  string; \<open>None\<close>, bools and numbers are not iterable.
\<close>

fun py_in :: "string \<Rightarrow> json \<Rightarrow> bool result" where
  "py_in k (JObj kvs) = Inr (map_of kvs k \<noteq> None)"
| "py_in k (JArr xs) = Inr (JStr k \<in> set xs)"
| "py_in k (JStr s) = Inr (is_substring k s)"
| "py_in k JNull = Inl TypeError"
| "py_in k (JBool b) = Inl TypeError"
| "py_in k (JInt i) = Inl TypeError"
| "py_in k (JFloat x) = Inl TypeError"

text \<open>\<open>x['k']\<close> with a string key: only a dict accepts it.\<close>

fun getitem :: "json \<Rightarrow> string \<Rightarrow> json result" where
  "getitem (JObj kvs) k = (case map_of kvs k of None \<Rightarrow> Inl (KeyError (JStr k)) | Some v \<Rightarrow> Inr v)"
| "getitem JNull k = Inl TypeError"
| "getitem (JBool b) k = Inl TypeError"
| "getitem (JInt i) k = Inl TypeError"
| "getitem (JFloat x) k = Inl TypeError"
| "getitem (JStr s) k = Inl TypeError"
| "getitem (JArr xs) k = Inl TypeError"

text \<open>
  \<open>x[0]\<close>: the first element of a list, the first character of a string; a parsed dict
  has string keys only, so \<open>0\<close> is a missing key.
\<close>

fun getitem0 :: "json \<Rightarrow> json result" where
  "getitem0 (JArr []) = Inl IndexError"
| "getitem0 (JArr (x # xs)) = Inr x"
| "getitem0 (JStr []) = Inl IndexError"
| "getitem0 (JStr (c # cs)) = Inr (JStr [c])"
| "getitem0 (JObj kvs) = Inl (KeyError (JInt 0))"
| "getitem0 JNull = Inl TypeError"
| "getitem0 (JBool b) = Inl TypeError"
| "getitem0 (JInt i) = Inl TypeError"
| "getitem0 (JFloat x) = Inl TypeError"

text \<open>
  \<open>float(i)\<close> as the arithmetic applies it to an int operand: the nearest double, and
  \<open>OverflowError\<close> when that is beyond the largest double.
\<close>

definition int_to_float :: "int \<Rightarrow> pyfloat result" where
  "int_to_float i =
     (if i = 0 then Inr (Finite False 0 (- 1074))
      else case fl_round (i < 0) (nat \<bar>i\<bar>) 1 0 of
             Inf s \<Rightarrow> Inl OverflowError
           | x \<Rightarrow> Inr x)"

text \<open>
  An operand of \<open>+\<close> or \<open>-\<close> against a float: a float as it is, an int or a bool (0 or 1)
  converted; anything else is a \<open>TypeError\<close>.
\<close>

fun as_float :: "json \<Rightarrow> pyfloat result" where
  "as_float (JFloat x) = Inr x"
| "as_float (JInt i) = int_to_float i"
| "as_float (JBool b) = int_to_float (if b then 1 else 0)"
| "as_float JNull = Inl TypeError"
| "as_float (JStr s) = Inl TypeError"
| "as_float (JArr xs) = Inl TypeError"
| "as_float (JObj kvs) = Inl TypeError"

text \<open>
  \<open>i / j\<close> on ints: the exact quotient rounded once to the nearest double;
  \<open>OverflowError\<close> when it is too large for a double.
\<close>

definition int_truediv :: "int \<Rightarrow> int \<Rightarrow> pyfloat result" where
  "int_truediv i j =
     (if j = 0 then Inl ZeroDivisionError
      else if i = 0 then Inr (Finite (j < 0) 0 (- 1074))
      else case fl_round ((i < 0) \<noteq> (j < 0)) (nat \<bar>i\<bar>) (nat \<bar>j\<bar>) 0 of
             Inf s \<Rightarrow> Inl OverflowError
           | x \<Rightarrow> Inr x)"

text \<open>\<open>a / b\<close> on floats: a zero divisor raises, whatever the dividend.\<close>

definition float_truediv :: "pyfloat \<Rightarrow> pyfloat \<Rightarrow> pyfloat result" where
  "float_truediv a b = (if fl_is_zero b then Inl ZeroDivisionError else Inr (fl_div a b))"

text \<open>\<open>x / k\<close> with an int \<open>k\<close>: int division for an int or a bool, float division for a float.\<close>

fun truediv_int :: "json \<Rightarrow> int \<Rightarrow> pyfloat result" where
  "truediv_int (JInt i) k = int_truediv i k"
| "truediv_int (JBool b) k = int_truediv (if b then 1 else 0) k"
| "truediv_int (JFloat x) k = then_e (int_to_float k) (float_truediv x)"
| "truediv_int JNull k = Inl TypeError"
| "truediv_int (JStr s) k = Inl TypeError"
| "truediv_int (JArr xs) k = Inl TypeError"
| "truediv_int (JObj kvs) k = Inl TypeError"

text \<open>
  \<open>x > k\<close> against an int \<open>k\<close>: exact for ints and for floats, false for \<open>nan\<close>; \<open>None\<close>,
  strings, lists and dicts do not order with an int.
\<close>

fun float_gt_int :: "pyfloat \<Rightarrow> int \<Rightarrow> bool" where
  "float_gt_int (Finite s m e) k = (k * 2 ^ nat (- e) < smant s m * 2 ^ nat e)"
| "float_gt_int (Inf s) k = (\<not> s)"
| "float_gt_int NaN k = False"

fun py_gt :: "json \<Rightarrow> int \<Rightarrow> bool result" where
  "py_gt (JInt i) k = Inr (k < i)"
| "py_gt (JBool b) k = Inr (k < (if b then 1 else 0))"
| "py_gt (JFloat x) k = Inr (float_gt_int x k)"
| "py_gt JNull k = Inl TypeError"
| "py_gt (JStr s) k = Inl TypeError"
| "py_gt (JArr xs) k = Inl TypeError"
| "py_gt (JObj kvs) k = Inl TypeError"

text \<open>
  \<open>for entry in x\<close>: the elements of a list, the keys of a dict, the characters of a
  string.
\<close>

fun py_iter :: "json \<Rightarrow> json list result" where
  "py_iter (JArr xs) = Inr xs"
| "py_iter (JObj kvs) = Inr (map (\<lambda>kv. JStr (fst kv)) kvs)"
| "py_iter (JStr s) = Inr (map (\<lambda>c. JStr [c]) s)"
| "py_iter JNull = Inl TypeError"
| "py_iter (JBool b) = Inl TypeError"
| "py_iter (JInt i) = Inl TypeError"
| "py_iter (JFloat x) = Inl TypeError"

text \<open>\<open>d.get(k, default)\<close>: a method of dicts only.\<close>

fun dict_get :: "json \<Rightarrow> string \<Rightarrow> json \<Rightarrow> json result" where
  "dict_get (JObj kvs) k d = Inr (case map_of kvs k of None \<Rightarrow> d | Some v \<Rightarrow> v)"
| "dict_get JNull k d = Inl AttributeError"
| "dict_get (JBool b) k d = Inl AttributeError"
| "dict_get (JInt i) k d = Inl AttributeError"
| "dict_get (JFloat x) k d = Inl AttributeError"
| "dict_get (JStr s) k d = Inl AttributeError"
| "dict_get (JArr xs) k d = Inl AttributeError"

text \<open>\<open>list(d.keys())\<close> zipped with \<open>list(d.values())\<close>.\<close>

fun dict_items :: "json \<Rightarrow> (string \<times> json) list result" where
  "dict_items (JObj kvs) = Inr kvs"
| "dict_items JNull = Inl AttributeError"
| "dict_items (JBool b) = Inl AttributeError"
| "dict_items (JInt i) = Inl AttributeError"
| "dict_items (JFloat x) = Inl AttributeError"
| "dict_items (JStr s) = Inl AttributeError"
| "dict_items (JArr xs) = Inl AttributeError"

section \<open>The outside world\<close>

text \<open>
  The four requests of the dashboard, by what the URL or the parameters carry. The
  routing request carries the origin as \<open>"lon,lat"\<close> and the destination as the two sums.
\<close>

datatype request =
    Weather string "string option"
  | AirPollution json json "string option"
  | Directions "string option" "json \<times> json" "pyfloat \<times> pyfloat"
  | Feed string "string option"

text \<open>
  What a render reads from outside: the three API keys (module globals, \<open>None\<close> when
  unset), \<open>requests.get(...).json()\<close>, and \<open>pd.to_datetime\<close> on one timestamp.
\<close>

record env =
  OPENWEATHERMAP_API_KEY :: "string option"
  OPENROUTESERVICE_API_KEY :: "string option"
  WAQI_API_TOKEN :: "string option"
  requests_get_json :: "request \<Rightarrow> json result"
  to_datetime :: "json \<Rightarrow> json result"

text \<open>
  What a render puts on the page, in order. Static headings, the style sheet and the
  AQI legend carry no fetched data and are left out.
\<close>

record aqi_sample =
  timestamp :: json
  aqi :: json

record traffic_estimate =
  duration :: json
  distance :: json
  expected_duration :: pyfloat
  congestion :: pyfloat

datatype widget =
    StError string
  | StErrorExn string exn
  | SidebarMetric string json
  | SidebarTrend "aqi_sample list"
  | AqiCard string json
  | TrafficCard traffic_estimate
  | TrafficUnavailable
  | CityMap json json string json
  | PollutantBar "(string \<times> json) list"
  | HistoryLine "aqi_sample list" string
  | HistoryUnavailable

section \<open>The trend window\<close>

text \<open>
  \<open>df.iloc[start:]\<close>: a negative start counts from the end and is clipped at the first
  row; a start past the end gives no rows.
\<close>

definition iloc_from :: "int \<Rightarrow> 'a list \<Rightarrow> 'a list" where
  "iloc_from start df =
     (let n = int (length df);
          s = (if start < 0 then max (n + start) 0 else min start n)
      in drop (nat s) df)"

text \<open>Line 177: \<open>last_7_days = historical_aqi_df.iloc[-7:]\<close>.\<close>

definition last_7_days :: "'a list \<Rightarrow> 'a list" where
  "last_7_days historical_aqi_df = iloc_from (- 7) historical_aqi_df"

section \<open>PollutionLookup: \<open>get_pollution_data\<close>\<close>

text \<open>
  Lines 24 to 48. Nothing is caught here: an exception of either request and of any
  subscript leaves the function. The result is the list of \<open>st.error\<close> calls and the
  returned triple \<open>(components, lat, lon)\<close>.
\<close>

text \<open>Line 40: \<open>'list' in pollution_response and pollution_response['list']\<close>, as tested by \<open>if\<close>.\<close>

definition has_list :: "json \<Rightarrow> bool result" where
  "has_list pollution_response =
     then_e (py_in ''list'' pollution_response) (\<lambda>present.
       if present then then_e (getitem pollution_response ''list'') (\<lambda>l. Inr (truthy l))
       else Inr False)"

definition get_pollution_data :: "env \<Rightarrow> string \<Rightarrow> (widget list \<times> json \<times> json \<times> json) result" where
  "get_pollution_data e city =
     then_e (requests_get_json e (Weather city (OPENWEATHERMAP_API_KEY e))) (\<lambda>city_response.
     then_e (py_in ''coord'' city_response) (\<lambda>has_coord.
       if has_coord then
         then_e (then_e (getitem city_response ''coord'') (\<lambda>c. getitem c ''lat'')) (\<lambda>lat.
         then_e (then_e (getitem city_response ''coord'') (\<lambda>c. getitem c ''lon'')) (\<lambda>lon.
         then_e (requests_get_json e (AirPollution lat lon (OPENWEATHERMAP_API_KEY e)))
           (\<lambda>pollution_response.
         then_e (has_list pollution_response) (\<lambda>available.
           if available then
             then_e (then_e (then_e (getitem pollution_response ''list'') getitem0)
                       (\<lambda>first. getitem first ''components'')) (\<lambda>components.
               Inr ([], components, lat, lon))
           else
             Inr ([StError ''Pollution data not available for the selected city.''],
                  JNull, JNull, JNull)))))
       else
         Inr ([StError ''City not found or invalid API key.''], JNull, JNull, JNull)))"

section \<open>TrafficEstimator: \<open>get_traffic_data\<close>\<close>

text \<open>
  Lines 51 to 60: the request. \<open>lon + 0.01\<close> and \<open>lat + 0.01\<close> are evaluated before the
  \<open>try\<close>, so a coordinate that is not a number raises \<open>TypeError\<close>, and an int too large
  for a double raises \<open>OverflowError\<close>, to the caller. The origin goes out as it came,
  the destination as the two double sums, longitude first.
\<close>

definition traffic_request :: "env \<Rightarrow> json \<Rightarrow> json \<Rightarrow> request result" where
  "traffic_request e lat lon =
     then_e (as_float lon) (\<lambda>lon_f.
     then_e (as_float lat) (\<lambda>lat_f.
       Inr (Directions (OPENROUTESERVICE_API_KEY e) (lon, lat)
              (fl_add lon_f (float_of_decimal 1 100), fl_add lat_f (float_of_decimal 1 100)))))"

text \<open>Line 65: \<open>'features' in response and response['features']\<close>, as tested by \<open>if\<close>.\<close>

definition has_features :: "json \<Rightarrow> bool result" where
  "has_features response =
     then_e (py_in ''features'' response) (\<lambda>present.
       if present then then_e (getitem response ''features'') (\<lambda>fs. Inr (truthy fs))
       else Inr False)"

text \<open>
  Line 73: \<open>expected_duration = (distance / 1000) / 50 * 3600\<close>, three operations on
  doubles, each rounded; the first is an int division when the distance is an int.
\<close>

definition expected_duration_of :: "json \<Rightarrow> pyfloat result" where
  "expected_duration_of distance_v =
     then_e (truediv_int distance_v 1000) (\<lambda>km.
     then_e (float_truediv km (float_of_decimal 50 1)) (\<lambda>hours.
       Inr (fl_mul hours (float_of_decimal 3600 1))))"

text \<open>
  Line 75: \<open>congestion_percentage = (duration - expected_duration) / expected_duration *
  100\<close>. The subtraction is evaluated before the division.
\<close>

definition congestion_of :: "json \<Rightarrow> pyfloat \<Rightarrow> pyfloat result" where
  "congestion_of duration_v expected_v =
     then_e (as_float duration_v) (\<lambda>t.
     then_e (float_truediv (fl_sub t expected_v) expected_v) (\<lambda>ratio.
       Inr (fl_mul ratio (float_of_decimal 100 1))))"

text \<open>Lines 66 to 73: the summary of the first feature, its duration and distance.\<close>

definition route_summary :: "json \<Rightarrow> (json \<times> json \<times> pyfloat) result" where
  "route_summary response =
     then_e (then_e (then_e (getitem response ''features'') getitem0)
               (\<lambda>feature. getitem feature ''properties'')) (\<lambda>properties.
     then_e (getitem properties ''summary'') (\<lambda>summary.
     then_e (getitem summary ''duration'') (\<lambda>duration_v.
     then_e (getitem summary ''distance'') (\<lambda>distance_v.
     then_e (expected_duration_of distance_v) (\<lambda>expected_v.
       Inr (duration_v, distance_v, expected_v))))))"

text \<open>Lines 75 to 82: the congestion and the returned dict.\<close>

definition route_estimate :: "json \<times> json \<times> pyfloat \<Rightarrow> traffic_estimate result" where
  "route_estimate s =
     (case s of (duration_v, distance_v, expected_v) \<Rightarrow>
        then_e (congestion_of duration_v expected_v) (\<lambda>c.
          Inr \<lparr>duration = duration_v, distance = distance_v,
               expected_duration = expected_v, congestion = c\<rparr>))"

text \<open>Lines 65 to 85: the body of the \<open>try\<close> after the request.\<close>

definition traffic_body :: "json \<Rightarrow> (widget list \<times> traffic_estimate option) result" where
  "traffic_body response =
     then_e (has_features response) (\<lambda>found.
       if found then
         then_e (route_summary response) (\<lambda>s.
         then_e (route_estimate s) (\<lambda>est. Inr ([], Some est)))
       else Inr ([StError ''No route found in the API response.''], None))"

text \<open>
  Lines 62 to 88: \<open>try\<close> and \<open>except Exception as e\<close>. Whatever the request or the body
  raises becomes the message \<open>f"Failed to retrieve traffic data: {str(e)}"\<close> and \<open>None\<close>.
\<close>

definition traffic_outcome ::
    "(widget list \<times> traffic_estimate option) result \<Rightarrow> widget list \<times> traffic_estimate option" where
  "traffic_outcome r =
     (case r of
        Inl ex \<Rightarrow> ([StErrorExn ''Failed to retrieve traffic data: '' ex], None)
      | Inr v \<Rightarrow> v)"

definition get_traffic_data ::
    "env \<Rightarrow> json \<Rightarrow> json \<Rightarrow> (widget list \<times> traffic_estimate option) result" where
  "get_traffic_data e lat lon =
     then_e (traffic_request e lat lon) (\<lambda>req.
       Inr (traffic_outcome (then_e (requests_get_json e req) traffic_body)))"

section \<open>AirQualityHistory: \<open>get_historical_aqi\<close>\<close>

text \<open>
  Lines 100 to 104: the loop appends one row per entry to \<open>aqi_data\<close>; an entry without
  \<open>day\<close> or \<open>avg\<close> raises and ends it.
\<close>

fun aqi_loop :: "json list \<Rightarrow> aqi_sample list \<Rightarrow> aqi_sample list result" where
  "aqi_loop [] aqi_data = Inr aqi_data"
| "aqi_loop (entry # rest) aqi_data =
     then_e (getitem entry ''day'') (\<lambda>ts.
     then_e (getitem entry ''avg'') (\<lambda>aqi_value.
       aqi_loop rest (aqi_data @ [\<lparr>timestamp = ts, aqi = aqi_value\<rparr>])))"

text \<open>
  Lines 91 to 110. Nothing is caught here either. A data frame is the list of its rows;
  \<open>pd.DataFrame()\<close> is the empty list.
\<close>

definition get_historical_aqi :: "env \<Rightarrow> string \<Rightarrow> (widget list \<times> json \<times> aqi_sample list) result" where
  "get_historical_aqi e city =
     then_e (requests_get_json e (Feed city (WAQI_API_TOKEN e))) (\<lambda>response.
     then_e (getitem response ''status'') (\<lambda>status.
       if status = JStr ''ok'' then
         then_e (then_e (getitem response ''data'') (\<lambda>d. getitem d ''aqi'')) (\<lambda>current_aqi.
         then_e (then_e (then_e (then_e (getitem response ''data'')
                   (\<lambda>d. getitem d ''forecast''))
                   (\<lambda>f. getitem f ''daily''))
                   (\<lambda>d. getitem d ''pm25'')) (\<lambda>historical_data.
         then_e (py_iter historical_data) (\<lambda>entries.
         then_e (aqi_loop entries []) (\<lambda>aqi_data.
           Inr ([], current_aqi, aqi_data)))))
       else
         Inr ([StError ''Failed to fetch historical AQI data.''], JNull, [])))"

section \<open>The render\<close>

text \<open>
  Lines 176 and 267: \<open>historical_aqi_df['timestamp'] = pd.to_datetime(...)\<close> rewrites the
  column in place, row by row; a timestamp the library rejects raises.
\<close>

fun convert_timestamps :: "(json \<Rightarrow> json result) \<Rightarrow> aqi_sample list \<Rightarrow> aqi_sample list result" where
  "convert_timestamps f [] = Inr []"
| "convert_timestamps f (r # rs) =
     then_e (f (timestamp r)) (\<lambda>ts.
     then_e (convert_timestamps f rs) (\<lambda>rs'.
       Inr (r\<lparr>timestamp := ts\<rparr> # rs')))"

text \<open>
  Lines 164 to 186, the sidebar: the current AQI when it is not \<open>None\<close>, the PM2.5 level
  when \<open>components\<close> is truthy, the trend of the last seven rows when the frame has rows.
  The frame is returned as the conversion left it.
\<close>

definition sidebar ::
    "env \<Rightarrow> json \<Rightarrow> json \<Rightarrow> aqi_sample list \<Rightarrow> (widget list \<times> aqi_sample list) result" where
  "sidebar e current_aqi components historical_aqi_df =
     then_e (if truthy components
             then then_e (dict_get components ''pm2_5'' (JStr ''N/A''))
                    (\<lambda>pm25. Inr [SidebarMetric ''PM2.5 Level'' pm25])
             else Inr []) (\<lambda>pm.
     then_e (if historical_aqi_df \<noteq> []
             then then_e (convert_timestamps (to_datetime e) historical_aqi_df)
                    (\<lambda>df. Inr ([SidebarTrend (last_7_days df)], df))
             else Inr ([], historical_aqi_df)) (\<lambda>trend.
       Inr ((if current_aqi \<noteq> JNull then [SidebarMetric ''Current AQI'' current_aqi] else [])
              @ pm @ fst trend, snd trend)))"

text \<open>
  Lines 205 to 279, the main column. Line 212 compares \<open>current_aqi > 100\<close> before anything
  is drawn, line 248 compares again for the marker. The map and the charts are taken to
  accept what they are given.
\<close>

definition main_content ::
    "env \<Rightarrow> string \<Rightarrow> json \<Rightarrow> aqi_sample list \<Rightarrow> json \<Rightarrow> json \<Rightarrow> json \<Rightarrow> widget list result" where
  "main_content e city current_aqi historical_aqi_df components lat lon =
     (if lat \<noteq> JNull \<and> lon \<noteq> JNull then
        then_e (py_gt current_aqi 100) (\<lambda>high.
        then_e (get_traffic_data e lat lon) (\<lambda>traffic.
        then_e (py_gt current_aqi 100) (\<lambda>high_marker.
        then_e (if truthy components
                then then_e (dict_items components) (\<lambda>kvs. Inr [PollutantBar kvs])
                else Inr []) (\<lambda>bar.
        then_e (if historical_aqi_df \<noteq> []
                then then_e (convert_timestamps (to_datetime e) historical_aqi_df)
                       (\<lambda>df. Inr [HistoryLine df city])
                else Inr [HistoryUnavailable]) (\<lambda>history.
          Inr ([AqiCard (if high then ''red'' else ''green'') current_aqi]
               @ fst traffic
               @ (case snd traffic of Some t \<Rightarrow> [TrafficCard t] | None \<Rightarrow> [TrafficUnavailable])
               @ [CityMap lat lon (if high_marker then ''red'' else ''green'') current_aqi]
               @ bar @ history))))))
      else
        Inr [StError ''Unable to fetch data for the selected city. Please try again later.''])"

text \<open>
  Lines 161 to 279: one render of the page for the selected city. An exception that
  reaches the top of the script aborts the render.
\<close>

definition render :: "env \<Rightarrow> string \<Rightarrow> widget list result" where
  "render e city =
     then_e (get_historical_aqi e city) (\<lambda>h.
     then_e (get_pollution_data e city) (\<lambda>p.
     then_e (sidebar e (fst (snd h)) (fst (snd p)) (snd (snd h))) (\<lambda>sb.
     then_e (main_content e city (fst (snd h)) (snd sb)
               (fst (snd p)) (fst (snd (snd p))) (snd (snd (snd p)))) (\<lambda>page.
       Inr (fst h @ fst p @ fst sb @ page)))))"

section \<open>Vocabulary of the properties\<close>

text \<open>A dict without the key \<open>k\<close>.\<close>

definition lacks :: "json \<Rightarrow> string \<Rightarrow> bool" where
  "lacks x k = (case x of JObj kvs \<Rightarrow> map_of kvs k = None | _ \<Rightarrow> False)"

text \<open>A row built from an upstream entry: its \<open>day\<close> as timestamp, its \<open>avg\<close> as value.\<close>

definition sample_of_entry :: "json \<Rightarrow> aqi_sample \<Rightarrow> bool" where
  "sample_of_entry entry row =
     (getitem entry ''day'' = Inr (timestamp row) \<and> getitem entry ''avg'' = Inr (aqi row))"

text \<open>The number zero: the int \<open>0\<close>, \<open>0.0\<close>, \<open>-0.0\<close>, \<open>False\<close>.\<close>

definition is_zero_number :: "json \<Rightarrow> bool" where
  "is_zero_number x =
     (case x of JInt i \<Rightarrow> i = 0 | JFloat y \<Rightarrow> fl_is_zero y | JBool b \<Rightarrow> \<not> b | _ \<Rightarrow> False)"

text \<open>The number a finite double stands for.\<close>

definition fl_val :: "bool \<Rightarrow> nat \<Rightarrow> int \<Rightarrow> real" where
  "fl_val s m e = of_int (smant s m) * 2 powi e"

section \<open>Example responses\<close>

text \<open>
  Responses in the shape the four endpoints document, and an environment that serves one
  fixed answer per endpoint. \<open>pd.to_datetime\<close> accepts every timestamp there.
\<close>

definition delhi_weather :: json where
  "delhi_weather =
     JObj [(''coord'', JObj [(''lat'', JFloat (float_of_decimal 286 10)),
                              (''lon'', JFloat (float_of_decimal 772 10))])]"

definition delhi_pollution :: json where
  "delhi_pollution =
     JObj [(''list'', JArr [JObj [(''components'',
       JObj [(''pm2_5'', JFloat (float_of_decimal 452 10)),
             (''co'', JFloat (float_of_decimal 2001 10))])]])]"

definition route_of :: "json \<Rightarrow> json \<Rightarrow> json" where
  "route_of t d =
     JObj [(''features'', JArr [JObj [(''properties'',
       JObj [(''summary'', JObj [(''distance'', d), (''duration'', t)])])]])]"

definition delhi_route :: json where
  "delhi_route = route_of (JFloat (float_of_decimal 180 1)) (JFloat (float_of_decimal 1500 1))"

definition delhi_feed :: json where
  "delhi_feed =
     JObj [(''status'', JStr ''ok''),
           (''data'', JObj [(''aqi'', JInt 152),
              (''forecast'', JObj [(''daily'', JObj [(''pm25'',
                 JArr [JObj [(''avg'', JInt 150), (''day'', JStr ''2024-10-01'')],
                       JObj [(''avg'', JInt 160), (''day'', JStr ''2024-10-02'')]])])])])]"

definition error_feed :: json where
  "error_feed = JObj [(''status'', JStr ''error''), (''data'', JStr ''Unknown station'')]"

definition no_forecast_feed :: json where
  "no_forecast_feed = JObj [(''status'', JStr ''ok''), (''data'', JObj [(''aqi'', JInt 152)])]"

definition null_components_pollution :: json where
  "null_components_pollution = JObj [(''list'', JArr [JObj [(''components'', JNull)]])]"

definition serve :: "json result \<Rightarrow> json result \<Rightarrow> json result \<Rightarrow> json result \<Rightarrow> env" where
  "serve weather pollution route feed =
     \<lparr>OPENWEATHERMAP_API_KEY = Some ''owm'', OPENROUTESERVICE_API_KEY = Some ''ors'',
      WAQI_API_TOKEN = Some ''waqi'',
      requests_get_json = (\<lambda>req. case req of
          Weather c k \<Rightarrow> weather
        | AirPollution la lo k \<Rightarrow> pollution
        | Directions k s d \<Rightarrow> route
        | Feed c k \<Rightarrow> feed),
      to_datetime = Inr\<rparr>"

definition delhi_env :: env where
  "delhi_env = serve (Inr delhi_weather) (Inr delhi_pollution) (Inr delhi_route) (Inr delhi_feed)"

definition offline_env :: env where
  "offline_env = serve (Inl (RequestException ''Connection refused''))
     (Inl (RequestException ''Connection refused''))
     (Inl (RequestException ''Connection refused''))
     (Inl (RequestException ''Connection refused''))"

section \<open>Basic facts\<close>

lemma then_e_Inr [simp]: "then_e (Inr x) f = f x"
  by (simp add: then_e_def)

lemma then_e_Inl [simp]: "then_e (Inl ex) f = Inl ex"
  by (simp add: then_e_def)

lemma getitem_lacks: "lacks x k \<Longrightarrow> getitem x k = Inl (KeyError (JStr k))"
  by (cases x) (simp_all add: lacks_def)

lemma getitem_py_in: "getitem x k = Inr v \<Longrightarrow> py_in k x = Inr True"
  by (cases x) (auto split: option.splits)

lemma getitem0_truthy: "getitem0 x = Inr v \<Longrightarrow> truthy x"
  by (cases x rule: getitem0.cases) simp_all

lemma serve_simps [simp]:
  "OPENWEATHERMAP_API_KEY (serve w p r f) = Some ''owm''"
  "OPENROUTESERVICE_API_KEY (serve w p r f) = Some ''ors''"
  "WAQI_API_TOKEN (serve w p r f) = Some ''waqi''"
  "requests_get_json (serve w p r f) (Weather c k) = w"
  "requests_get_json (serve w p r f) (AirPollution la lo k) = p"
  "requests_get_json (serve w p r f) (Directions k s d) = r"
  "requests_get_json (serve w p r f) (Feed c k) = f"
  "to_datetime (serve w p r f) = Inr"
  by (simp_all add: serve_def)

text \<open>Evaluation of the arithmetic on numerals: the bit length in steps of 64 bits.\<close>

lemma bitlen_shift: "2 ^ k \<le> x \<Longrightarrow> bitlen x = bitlen (x div 2 ^ k) + int k"
proof (induction k arbitrary: x)
  case 0
  then show ?case by simp
next
  case (Suc k)
  have "(0::int) < 2 ^ Suc k" by simp
  from this Suc.prems have x: "0 < x" by (rule less_le_trans)
  from Suc.prems have "2 ^ k \<le> x div 2" by simp
  from Suc.IH [OF this] have "bitlen (x div 2) = bitlen (x div 2 div 2 ^ k) + int k" .
  moreover have "x div 2 div 2 ^ k = x div 2 ^ Suc k"
    by (simp add: zdiv_zmult2_eq)
  moreover have "bitlen x = bitlen (x div 2) + 1"
    using x by (subst compute_bitlen) simp
  ultimately show ?case by simp
qed

lemma bitlen_eval:
  "bitlen x = (if 2 ^ 64 \<le> x then bitlen (x div 2 ^ 64) + 64
               else if 0 < x then bitlen (x div 2) + 1 else 0)"
  using bitlen_shift [of 64 x] compute_bitlen [of x] by simp

lemmas fl_eval = fl_round_def quantum_def ilog2_def nearest_even_def Let_def bitlen_eval
  float_of_decimal_def smant_def int_to_float_def int_truediv_def float_truediv_def fl_sub_def

text \<open>The literals of the source as doubles.\<close>

lemma float_0_01: "float_of_decimal 1 100 = Finite False 5764607523034235 (- 59)"
  by (simp add: fl_eval)

lemma float_50: "float_of_decimal 50 1 = Finite False 7036874417766400 (- 47)"
  by (simp add: fl_eval)

lemma float_3600: "float_of_decimal 3600 1 = Finite False 7916483719987200 (- 41)"
  by (simp add: fl_eval)

lemma float_100: "float_of_decimal 100 1 = Finite False 7036874417766400 (- 46)"
  by (simp add: fl_eval)

lemma float_1000: "int_to_float 1000 = Inr (Finite False 8796093022208000 (- 43))"
  by (simp add: fl_eval)

lemma get_traffic_data_built:
  assumes "traffic_request e lat lon = Inr req"
  shows "get_traffic_data e lat lon =
     Inr (traffic_outcome (then_e (requests_get_json e req) traffic_body))"
  by (simp add: get_traffic_data_def assms)

lemma get_traffic_data_not_built:
  assumes "traffic_request e lat lon = Inl ex"
  shows "get_traffic_data e lat lon = Inl ex"
  by (simp add: get_traffic_data_def assms)

lemma traffic_request_float:
  "traffic_request e (JFloat la) (JFloat lo) =
     Inr (Directions (OPENROUTESERVICE_API_KEY e) (JFloat lo, JFloat la)
            (fl_add lo (float_of_decimal 1 100), fl_add la (float_of_decimal 1 100)))"
  by (simp add: traffic_request_def)

lemma has_features_path:
  assumes "getitem response ''features'' = Inr fs" and "getitem0 fs = Inr feature"
  shows "has_features response = Inr True"
  using assms by (simp add: has_features_def getitem_py_in getitem0_truthy)

lemma route_summary_path:
  assumes "getitem response ''features'' = Inr fs"
    and "getitem0 fs = Inr feature"
    and "getitem feature ''properties'' = Inr props"
    and "getitem props ''summary'' = Inr summary"
    and "getitem summary ''duration'' = Inr dur"
    and "getitem summary ''distance'' = Inr dis"
  shows "route_summary response = then_e (expected_duration_of dis) (\<lambda>x. Inr (dur, dis, x))"
  using assms by (simp add: route_summary_def)

lemma traffic_body_path:
  assumes "getitem response ''features'' = Inr fs"
    and "getitem0 fs = Inr feature"
    and "getitem feature ''properties'' = Inr props"
    and "getitem props ''summary'' = Inr summary"
    and "getitem summary ''duration'' = Inr dur"
    and "getitem summary ''distance'' = Inr dis"
  shows "traffic_body response =
     then_e (expected_duration_of dis) (\<lambda>x.
     then_e (congestion_of dur x) (\<lambda>c.
       Inr ([], Some \<lparr>duration = dur, distance = dis, expected_duration = x,
                        congestion = c\<rparr>)))"
  by (simp add: traffic_body_def has_features_path [OF assms(1,2)]
      route_summary_path [OF assms] route_estimate_def then_e_def split: sum.splits)

lemma route_of_path:
  "getitem (route_of t d) ''features'' =
     Inr (JArr [JObj [(''properties'',
       JObj [(''summary'', JObj [(''distance'', d), (''duration'', t)])])]])"
  by (simp add: route_of_def)

lemma traffic_outcome_total: "\<exists>w r. traffic_outcome x = (w, r)"
  by (cases "traffic_outcome x") simp

lemma aqi_loop_rows:
  assumes "\<forall>entry\<in>set entries. \<exists>dy av. getitem entry ''day'' = Inr dy \<and> getitem entry ''avg'' = Inr av"
  shows "\<exists>rows. aqi_loop entries acc = Inr (acc @ rows) \<and> list_all2 sample_of_entry entries rows"
  using assms
proof (induction entries arbitrary: acc)
  case Nil
  then show ?case by simp
next
  case (Cons entry rest)
  from Cons.prems obtain dy av
    where dy: "getitem entry ''day'' = Inr dy" and av: "getitem entry ''avg'' = Inr av"
    by auto
  from Cons.prems have "\<forall>x\<in>set rest. \<exists>dy av. getitem x ''day'' = Inr dy \<and> getitem x ''avg'' = Inr av"
    by simp
  from Cons.IH [OF this, of "acc @ [\<lparr>timestamp = dy, aqi = av\<rparr>]"]
  obtain rows where r: "aqi_loop rest (acc @ [\<lparr>timestamp = dy, aqi = av\<rparr>]) =
      Inr ((acc @ [\<lparr>timestamp = dy, aqi = av\<rparr>]) @ rows)"
    and l: "list_all2 sample_of_entry rest rows"
    by blast
  have "aqi_loop (entry # rest) acc = Inr (acc @ (\<lparr>timestamp = dy, aqi = av\<rparr> # rows))"
    using r by (simp add: dy av)
  moreover have "list_all2 sample_of_entry (entry # rest) (\<lparr>timestamp = dy, aqi = av\<rparr> # rows)"
    using l by (simp add: sample_of_entry_def dy av)
  ultimately show ?case by blast
qed

lemma get_historical_aqi_response:
  assumes "requests_get_json e (Feed city (WAQI_API_TOKEN e)) = Inr response"
  shows "get_historical_aqi e city =
     then_e (getitem response ''status'') (\<lambda>status.
       if status = JStr ''ok'' then
         then_e (then_e (getitem response ''data'') (\<lambda>d. getitem d ''aqi'')) (\<lambda>current_aqi.
         then_e (then_e (then_e (then_e (getitem response ''data'')
                   (\<lambda>d. getitem d ''forecast''))
                   (\<lambda>f. getitem f ''daily''))
                   (\<lambda>d. getitem d ''pm25'')) (\<lambda>historical_data.
         then_e (py_iter historical_data) (\<lambda>entries.
         then_e (aqi_loop entries []) (\<lambda>aqi_data.
           Inr ([], current_aqi, aqi_data)))))
       else
         Inr ([StError ''Failed to fetch historical AQI data.''], JNull, []))"
  by (simp add: get_historical_aqi_def assms)


lemma float_1000_lit: "float_of_decimal 1000 1 = Finite False 8796093022208000 (- 43)"
  by (simp add: fl_eval)

lemma expected_duration_float:
  "expected_duration_of (JFloat d) =
     Inr (fl_mul (fl_div (fl_div d (float_of_decimal 1000 1)) (float_of_decimal 50 1))
            (float_of_decimal 3600 1))"
  by (simp add: expected_duration_of_def float_1000 float_1000_lit float_50 float_truediv_def)

lemma expected_duration_int:
  "expected_duration_of (JInt i) =
     then_e (int_truediv i 1000) (\<lambda>km.
       Inr (fl_mul (fl_div km (float_of_decimal 50 1)) (float_of_decimal 3600 1)))"
  by (simp add: expected_duration_of_def float_50 float_truediv_def)

lemma expected_duration_zero:
  assumes "is_zero_number dis"
  shows "\<exists>x. expected_duration_of dis = Inr x \<and> fl_is_zero x"
proof (cases dis)
  case (JInt i)
  with assms show ?thesis
    by (simp add: is_zero_number_def expected_duration_int int_truediv_def float_50 float_3600)
next
  case (JFloat y)
  with assms obtain s m ex where "y = Finite s m ex" and "m = 0"
    by (cases y) (simp_all add: is_zero_number_def)
  with JFloat show ?thesis
    by (simp add: expected_duration_float float_1000_lit float_50 float_3600)
next
  case (JBool b)
  with assms show ?thesis
    by (simp add: is_zero_number_def expected_duration_of_def int_truediv_def float_50
        float_3600 float_truediv_def)
qed (use assms in \<open>simp_all add: is_zero_number_def\<close>)

lemma congestion_of_cases:
  "as_float dur = Inr t \<Longrightarrow>
   congestion_of dur x =
     (if fl_is_zero x then Inl ZeroDivisionError
      else Inr (fl_mul (fl_div (fl_sub t x) x) (float_of_decimal 100 1)))"
  by (simp add: congestion_of_def float_truediv_def)

section \<open>How far rounding moves a number\<close>

lemma nearest_even_close:
  assumes "0 < d"
  shows "\<bar>real_of_int (nearest_even n d) - real_of_int n / real_of_int d\<bar> \<le> 1 / 2"
proof -
  define f where "f = n div d"
  define r where "r = n mod d"
  have n: "n = d * f + r" and r0: "0 \<le> r" and rd: "r < d"
    using assms by (simp_all add: f_def r_def)
  have q: "real_of_int n / real_of_int d = real_of_int f + real_of_int r / real_of_int d"
    using assms by (simp add: n field_simps)
  have d: "0 < real_of_int d" using assms by simp
  consider "2 * r < d" | "d < 2 * r" | "2 * r = d" by linarith
  then show ?thesis
  proof cases
    case 1
    then have "nearest_even n d = f" by (simp add: nearest_even_def f_def r_def)
    moreover have "real_of_int r / real_of_int d \<le> 1 / 2"
      using 1 d by (simp add: field_simps)
    moreover have "0 \<le> real_of_int r / real_of_int d" using r0 d by simp
    ultimately show ?thesis by (simp add: q)
  next
    case 2
    then have "nearest_even n d = f + 1" by (simp add: nearest_even_def f_def r_def)
    moreover have "1 / 2 \<le> real_of_int r / real_of_int d"
      using 2 d by (simp add: field_simps)
    moreover have "real_of_int r / real_of_int d \<le> 1" using rd d by (simp add: field_simps)
    ultimately show ?thesis by (simp add: q)
  next
    case 3
    then have ne: "nearest_even n d = f \<or> nearest_even n d = f + 1"
      by (simp add: nearest_even_def f_def r_def Let_def)
    from 3 have "real_of_int d = 2 * real_of_int r"
      by (metis of_int_mult of_int_numeral)
    then have h: "real_of_int r / real_of_int d = 1 / 2"
      using d by simp
    from ne show ?thesis
    proof
      assume "nearest_even n d = f"
      then show ?thesis by (simp add: q h)
    next
      assume "nearest_even n d = f + 1"
      then show ?thesis by (simp add: q h)
    qed
  qed
qed

lemma nearest_even_nonneg: "0 \<le> n \<Longrightarrow> 0 < d \<Longrightarrow> 0 \<le> nearest_even n d"
  by (auto simp: nearest_even_def Let_def pos_imp_zdiv_nonneg_iff)

lemma ilog2_lower:
  assumes "0 < p" and "0 < q"
  shows "2 powi (ilog2 p q) \<le> real p / real q"
proof -
  define d where "d = bitlen (int p) - bitlen (int q)"
  have bp: "2 ^ nat (bitlen (int p) - 1) \<le> int p" and bq: "int q < 2 ^ nat (bitlen (int q))"
    using bitlen_bounds [of "int p"] bitlen_bounds [of "int q"] assms by simp_all
  have bp1: "1 \<le> bitlen (int p)" and bq1: "1 \<le> bitlen (int q)"
    using assms by (simp_all add: bitlen_alt_def)
  show ?thesis
  proof (cases "int q * 2 ^ nat d \<le> int p * 2 ^ nat (- d)")
    case True
    then have i: "ilog2 p q = d" by (simp add: ilog2_def d_def)
    from True have "real_of_int (int q * 2 ^ nat d) \<le> real_of_int (int p * 2 ^ nat (- d))"
      by (simp only: of_int_le_iff)
    then have r: "real q * 2 ^ nat d \<le> real p * 2 ^ nat (- d)" by simp
    show ?thesis
    proof (cases "0 \<le> d")
      case True
      with r have "real q * 2 powi d \<le> real p" by (simp add: power_int_def)
      with assms show ?thesis by (simp add: i field_simps)
    next
      case False
      with r have "real q \<le> real p * 2 ^ nat (- d)" by simp
      then have "real q / 2 ^ nat (- d) \<le> real p"
        by (simp add: pos_divide_le_eq)
      moreover from False have "(2::real) powi d = 1 / 2 ^ nat (- d)"
        by (simp add: power_int_def field_simps)
      ultimately have "real q * 2 powi d \<le> real p" by simp
      with assms show ?thesis by (simp add: i pos_le_divide_eq mult.commute)
    qed
  next
    case False
    then have i: "ilog2 p q = d - 1" by (simp add: ilog2_def d_def)
    from bp have "real_of_int (2 ^ nat (bitlen (int p) - 1)) \<le> real_of_int (int p)"
      by (simp only: of_int_le_iff)
    then have p: "2 powi (bitlen (int p) - 1) \<le> real p"
      using bp1 by (simp add: power_int_def)
    from bq have "real_of_int (int q) < real_of_int (2 ^ nat (bitlen (int q)))"
      by (simp only: of_int_less_iff)
    then have q: "real q < 2 powi (bitlen (int q))"
      using bq1 by (simp add: power_int_def)
    have "(2::real) powi (d - 1) = 2 powi (bitlen (int p) - 1) / 2 powi (bitlen (int q))"
      by (simp add: d_def power_int_diff)
    also have "\<dots> \<le> real p / 2 powi (bitlen (int q))"
      using p by (simp add: divide_right_mono)
    also have "\<dots> \<le> real p / real q"
      using q assms by (simp add: frac_le)
    finally show ?thesis by (simp add: i)
  qed
qed



lemma fl_round_close:
  assumes "0 < p" and "0 < q" and "fl_round s p q e = Finite s' m' e'"
  shows "s' = s"
    and "\<bar>real m' * 2 powi e' - real p / real q * 2 powi e\<bar> \<le> 2 powi (quantum p q e) / 2"
proof -
  define ex where "ex = quantum p q e"
  define N where "N = int p * 2 ^ nat (e - ex)"
  define D where "D = int q * 2 ^ nat (ex - e)"
  define n where "n = nearest_even N D"
  have D: "0 < D" and N: "0 \<le> N" using assms by (simp_all add: D_def N_def)
  have n0: "0 \<le> n" unfolding n_def using N D by (rule nearest_even_nonneg)
  have c: "\<bar>real_of_int n - real_of_int N / real_of_int D\<bar> \<le> 1 / 2"
    unfolding n_def using D by (rule nearest_even_close)
  have ratio: "real_of_int N / real_of_int D = real p / real q * 2 powi (e - ex)"
  proof (cases "ex \<le> e")
    case True
    then show ?thesis by (simp add: N_def D_def power_int_def)
  next
    case False
    then have "(2::real) powi (e - ex) = 1 / 2 ^ nat (ex - e)"
      by (simp add: power_int_def field_simps)
    with False show ?thesis by (simp add: N_def D_def)
  qed
  have scale: "real p / real q * 2 powi (e - ex) * 2 powi ex = real p / real q * 2 powi e"
    by (simp add: power_int_diff)
  have nd: "real_of_int N / real_of_int D * 2 powi ex = real p / real q * 2 powi e"
    unfolding ratio by (rule scale)
  have "real_of_int n * 2 powi ex - real p / real q * 2 powi e =
      (real_of_int n - real_of_int N / real_of_int D) * 2 powi ex"
    by (simp only: left_diff_distrib nd)
  then have "\<bar>real_of_int n * 2 powi ex - real p / real q * 2 powi e\<bar> =
      \<bar>real_of_int n - real_of_int N / real_of_int D\<bar> * 2 powi ex"
    by (simp only: abs_mult) simp
  also have "\<dots> \<le> 1 / 2 * 2 powi ex"
    using c by (intro mult_right_mono) simp_all
  finally have bound: "\<bar>real_of_int n * 2 powi ex - real p / real q * 2 powi e\<bar> \<le> 2 powi ex / 2"
    by simp
  have r: "fl_round s p q e =
      (if n = 0 then Finite s 0 (- 1074)
       else if n = 2 ^ 53 then (if 971 < ex + 1 then Inf s else Finite s (2 ^ 52) (ex + 1))
       else if 971 < ex then Inf s
       else Finite s (nat n) ex)"
    by (simp add: fl_round_def Let_def ex_def n_def N_def D_def)
  from assms(3) r show "s' = s" by (auto split: if_splits)
  have v: "real m' * 2 powi e' = real_of_int n * 2 powi ex"
  proof -
    consider "n = 0" | "n = 2 ^ 53" | "n \<noteq> 0" "n \<noteq> 2 ^ 53" by blast
    then show ?thesis
    proof cases
      case 1
      with assms(3) r show ?thesis by simp
    next
      case 2
      with assms(3) r have "m' = 2 ^ 52" and "e' = ex + 1" by (auto split: if_splits)
      with 2 show ?thesis by (simp add: power_int_add)
    next
      case 3
      with assms(3) r have "m' = nat n" and "e' = ex" by (auto split: if_splits)
      with n0 show ?thesis by simp
    qed
  qed
  from bound show "\<bar>real m' * 2 powi e' - real p / real q * 2 powi e\<bar> \<le> 2 powi (quantum p q e) / 2"
    by (simp add: v ex_def)
qed


lemma powi_less_exp:
  assumes "(2::real) powi k \<le> v" and "v < 2 powi K"
  shows "k < K"
proof (rule ccontr)
  assume "\<not> k < K"
  then have "(2::real) powi K \<le> 2 powi k"
    by (intro power_int_increasing) simp_all
  with assms show False by simp
qed

lemma exponent_lower:
  assumes "0 < p" and "0 < q"
  shows "2 powi (e + ilog2 p q) \<le> real p / real q * 2 powi e"
proof -
  have "(2::real) powi (e + ilog2 p q) = 2 powi (ilog2 p q) * 2 powi e"
    by (simp add: power_int_add)
  also have "\<dots> \<le> real p / real q * 2 powi e"
    using ilog2_lower [OF assms] by (intro mult_right_mono) simp_all
  finally show ?thesis .
qed


lemma fl_round_finite:
  "quantum p q e \<le> 970 \<Longrightarrow> \<exists>m' e'. fl_round s p q e = Finite s m' e'"
  by (simp add: fl_round_def Let_def)

text \<open>Below \<open>2^K\<close> the doubles are at most \<open>2^(K - 53)\<close> apart: nothing overflows there, and
  rounding moves a number by at most half of that.\<close>

lemma fl_round_below:
  assumes "0 < p" and "0 < q"
    and "real p / real q * 2 powi e < 2 powi K" and "- 1021 \<le> K" and "K \<le> 1023"
  shows "\<exists>m' e'. fl_round s p q e = Finite s m' e'
    \<and> \<bar>real m' * 2 powi e' - real p / real q * 2 powi e\<bar> \<le> 2 powi (K - 54)"
proof -
  have "e + ilog2 p q < K"
    using exponent_lower [OF assms(1,2)] assms(3) by (rule powi_less_exp)
  with assms(4) have qu: "quantum p q e \<le> K - 53"
    by (simp add: quantum_def)
  with assms(5) have "quantum p q e \<le> 970" by simp
  then obtain m' e' where r: "fl_round s p q e = Finite s m' e'"
    using fl_round_finite by blast
  have "\<bar>real m' * 2 powi e' - real p / real q * 2 powi e\<bar> \<le> 2 powi (quantum p q e) / 2"
    using assms(1,2) r by (rule fl_round_close)
  also have "\<dots> \<le> 2 powi (K - 53) / 2"
    using qu by (intro divide_right_mono power_int_increasing) simp_all
  also have "\<dots> = 2 powi (K - 54)"
    by (simp add: power_int_diff)
  finally show ?thesis using r by blast
qed



lemma fl_val_split: "fl_val s m e = (if s then - (real m * 2 powi e) else real m * 2 powi e)"
  by (simp add: fl_val_def smant_def)

lemma fl_val_scaled:
  assumes "ex \<le> e"
  shows "fl_val s m e = real_of_int (smant s m * 2 ^ nat (e - ex)) * 2 powi ex"
proof -
  have "(2::real) powi e = 2 powi (e - ex) * 2 powi ex"
    by (simp add: power_int_diff)
  also have "(2::real) powi (e - ex) = 2 ^ nat (e - ex)"
    using assms by (simp add: power_int_def)
  finally show ?thesis by (simp add: fl_val_def)
qed

lemma fl_add_close:
  assumes "\<bar>fl_val s1 m1 e1 + fl_val s2 m2 e2\<bar> < 2 powi K" and "- 1021 \<le> K" and "K \<le> 1023"
  shows "\<exists>s' m' e'. fl_add (Finite s1 m1 e1) (Finite s2 m2 e2) = Finite s' m' e'
    \<and> \<bar>fl_val s' m' e' - (fl_val s1 m1 e1 + fl_val s2 m2 e2)\<bar> \<le> 2 powi (K - 54)"
proof -
  define ex where "ex = min e1 e2"
  define t where "t = smant s1 m1 * 2 ^ nat (e1 - ex) + smant s2 m2 * 2 ^ nat (e2 - ex)"
  have sum: "fl_val s1 m1 e1 + fl_val s2 m2 e2 = real_of_int t * 2 powi ex"
    using fl_val_scaled [of ex e1 s1 m1] fl_val_scaled [of ex e2 s2 m2]
    by (simp add: ex_def t_def algebra_simps)
  have a: "fl_add (Finite s1 m1 e1) (Finite s2 m2 e2) =
      (if t = 0 then Finite (s1 \<and> s2) 0 (- 1074) else fl_round (t < 0) (nat \<bar>t\<bar>) 1 ex)"
    by (simp add: Let_def ex_def t_def)
  show ?thesis
  proof (cases "t = 0")
    case True
    then have "fl_add (Finite s1 m1 e1) (Finite s2 m2 e2) = Finite (s1 \<and> s2) 0 (- 1074)"
      by (simp add: a del: fl_add.simps)
    moreover have "fl_val (s1 \<and> s2) 0 (- 1074) = 0"
      by (simp add: fl_val_def smant_def)
    moreover have "fl_val s1 m1 e1 + fl_val s2 m2 e2 = 0"
      using True by (simp add: sum)
    ultimately have "fl_add (Finite s1 m1 e1) (Finite s2 m2 e2) = Finite (s1 \<and> s2) 0 (- 1074)
      \<and> \<bar>fl_val (s1 \<and> s2) 0 (- 1074) - (fl_val s1 m1 e1 + fl_val s2 m2 e2)\<bar>
        \<le> 2 powi (K - 54)"
      by (simp del: fl_add.simps)
    then show ?thesis by blast
  next
    case False
    then have p: "0 < nat \<bar>t\<bar>" by simp
    have v: "real (nat \<bar>t\<bar>) / real (1::nat) * 2 powi ex = \<bar>real_of_int t * 2 powi ex\<bar>"
      by (simp add: abs_mult)
    with assms(1) have "real (nat \<bar>t\<bar>) / real (1::nat) * 2 powi ex < 2 powi K"
      by (simp only: sum)
    from fl_round_below [OF p _ this assms(2,3), of "t < 0"]
    obtain m' e' where r: "fl_round (t < 0) (nat \<bar>t\<bar>) 1 ex = Finite (t < 0) m' e'"
      and c: "\<bar>real m' * 2 powi e' - real (nat \<bar>t\<bar>) / real (1::nat) * 2 powi ex\<bar>
        \<le> 2 powi (K - 54)"
      by auto
    have "\<bar>fl_val (t < 0) m' e' - real_of_int t * 2 powi ex\<bar> =
        \<bar>real m' * 2 powi e' - real (nat \<bar>t\<bar>) / real (1::nat) * 2 powi ex\<bar>"
      by (cases "t < 0") (simp_all add: fl_val_split abs_mult algebra_simps)
    with c r False show ?thesis by (simp add: a sum del: fl_add.simps)
  qed
qed



lemma offset_close:
  assumes "\<bar>fl_val s m ex\<bar> \<le> 180"
  shows "\<exists>s' m' e'. fl_add (Finite s m ex) (float_of_decimal 1 100) = Finite s' m' e'
    \<and> \<bar>fl_val s' m' e' - (fl_val s m ex + 1 / 100)\<bar> \<le> 2 powi (- 45)"
proof -
  define c where "c = fl_val False 5764607523034235 (- 59)"
  have c: "c = 5764607523034235 / 2 ^ 59"
    by (simp add: c_def fl_val_def smant_def power_int_def field_simps)
  have c1: "\<bar>c\<bar> \<le> 1" and c2: "\<bar>c - 1 / 100\<bar> \<le> 2 powi (- 46)"
    by (simp_all add: c power_int_def field_simps)
  have "\<bar>fl_val s m ex + c\<bar> < 2 powi 8"
    using assms c1 by (simp add: power_int_def)
  from fl_add_close [OF this [unfolded c_def]]
  obtain s' m' e' where a: "fl_add (Finite s m ex) (Finite False 5764607523034235 (- 59)) =
      Finite s' m' e'"
    and b: "\<bar>fl_val s' m' e' - (fl_val s m ex + c)\<bar> \<le> 2 powi (8 - 54)"
    unfolding c_def by auto
  have "(2::real) powi (- 45) = 2 * 2 powi (- 46)"
    by (simp add: power_int_def field_simps)
  moreover have "(8::int) - 54 = - 46" by simp
  moreover have "\<bar>fl_val s' m' e' - (fl_val s m ex + 1 / 100)\<bar>
      \<le> \<bar>fl_val s' m' e' - (fl_val s m ex + c)\<bar> + \<bar>c - 1 / 100\<bar>"
    by linarith
  ultimately have "\<bar>fl_val s' m' e' - (fl_val s m ex + 1 / 100)\<bar> \<le> 2 powi (- 45)"
    using b c2 by (simp only:)
  with a show ?thesis unfolding float_0_01 by blast
qed


section \<open>The properties\<close>

text \<open>
  C1, as the code has it. Take a route response whose first feature has a summary with a
  duration and a distance, the duration a number that converts to a double. When the
  expected duration, a double, is not zero, the returned estimate has the congestion
  \<open>(duration - expected_duration) / expected_duration * 100\<close> evaluated in double
  arithmetic. When it is zero, as it is at distance 0, the division raises
  \<open>ZeroDivisionError\<close> inside the \<open>try\<close>; when computing it raises, that exception is
  raised inside the \<open>try\<close> as well: the function returns \<open>None\<close> with a message and
  raises nothing.
\<close>

theorem congestion_formula:
  assumes "getitem response ''features'' = Inr fs"
    and "getitem0 fs = Inr feature"
    and "getitem feature ''properties'' = Inr props"
    and "getitem props ''summary'' = Inr summary"
    and "getitem summary ''duration'' = Inr dur"
    and "getitem summary ''distance'' = Inr dis"
    and "as_float dur = Inr t"
    and "traffic_request e lat lon = Inr req"
    and "requests_get_json e req = Inr response"
  shows "(\<forall>x. expected_duration_of dis = Inr x \<and> \<not> fl_is_zero x \<longrightarrow>
            get_traffic_data e lat lon =
              Inr ([], Some \<lparr>duration = dur, distance = dis, expected_duration = x,
                     congestion = fl_mul (fl_div (fl_sub t x) x) (float_of_decimal 100 1)\<rparr>))
    \<and> (\<forall>x. expected_duration_of dis = Inr x \<and> fl_is_zero x \<longrightarrow>
            get_traffic_data e lat lon =
              Inr ([StErrorExn ''Failed to retrieve traffic data: '' ZeroDivisionError], None))
    \<and> (is_zero_number dis \<longrightarrow>
            get_traffic_data e lat lon =
              Inr ([StErrorExn ''Failed to retrieve traffic data: '' ZeroDivisionError], None))
    \<and> (\<forall>ex. expected_duration_of dis = Inl ex \<longrightarrow>
            get_traffic_data e lat lon =
              Inr ([StErrorExn ''Failed to retrieve traffic data: '' ex], None))"
proof -
  have g: "get_traffic_data e lat lon =
      Inr (traffic_outcome (then_e (expected_duration_of dis) (\<lambda>x.
        then_e (congestion_of dur x) (\<lambda>c.
          Inr ([], Some \<lparr>duration = dur, distance = dis, expected_duration = x,
                           congestion = c\<rparr>)))))"
    by (simp add: get_traffic_data_built [OF assms(8)] assms(9)
        traffic_body_path [OF assms(1-6)])
  have nz: "get_traffic_data e lat lon =
      Inr ([], Some \<lparr>duration = dur, distance = dis, expected_duration = x,
             congestion = fl_mul (fl_div (fl_sub t x) x) (float_of_decimal 100 1)\<rparr>)"
    if "expected_duration_of dis = Inr x" and "\<not> fl_is_zero x" for x
    using that by (simp add: g congestion_of_cases [OF assms(7)] traffic_outcome_def)
  have z: "get_traffic_data e lat lon =
      Inr ([StErrorExn ''Failed to retrieve traffic data: '' ZeroDivisionError], None)"
    if "expected_duration_of dis = Inr x" and "fl_is_zero x" for x
    using that by (simp add: g congestion_of_cases [OF assms(7)] traffic_outcome_def)
  have r: "get_traffic_data e lat lon =
      Inr ([StErrorExn ''Failed to retrieve traffic data: '' ex], None)"
    if "expected_duration_of dis = Inl ex" for ex
    using that by (simp add: g traffic_outcome_def)
  from nz z r expected_duration_zero [of dis] show ?thesis by blast
qed

theorem congestion_formula_witness:
  "get_traffic_data delhi_env (JFloat (float_of_decimal 286 10)) (JFloat (float_of_decimal 772 10)) =
     Inr ([], Some \<lparr>duration = JFloat (float_of_decimal 180 1),
                    distance = JFloat (float_of_decimal 1500 1),
                    expected_duration = Finite False 7599824371187712 (- 46),
                    congestion = Finite False 4691249611844266 (- 46)\<rparr>)
   \<and> get_traffic_data (serve (Inr delhi_weather) (Inr delhi_pollution)
        (Inr (route_of (JInt 0) (JInt 0))) (Inr delhi_feed))
        (JFloat (float_of_decimal 286 10)) (JFloat (float_of_decimal 772 10)) =
     Inr ([StErrorExn ''Failed to retrieve traffic data: '' ZeroDivisionError], None)"
proof -
  let ?la = "JFloat (float_of_decimal 286 10)" and ?lo = "JFloat (float_of_decimal 772 10)"
  let ?req = "Directions (Some ''ors'') (?lo, ?la)
      (fl_add (float_of_decimal 772 10) (float_of_decimal 1 100),
       fl_add (float_of_decimal 286 10) (float_of_decimal 1 100))"
  have x: "expected_duration_of (JFloat (float_of_decimal 1500 1)) =
      Inr (Finite False 7599824371187712 (- 46))"
    by (simp add: expected_duration_of_def fl_eval)
  have c: "fl_mul (fl_div (fl_sub (float_of_decimal 180 1) (Finite False 7599824371187712 (- 46)))
      (Finite False 7599824371187712 (- 46))) (float_of_decimal 100 1) =
      Finite False 4691249611844266 (- 46)"
    by (simp add: fl_eval)
  have a: "get_traffic_data delhi_env ?la ?lo =
     Inr ([], Some \<lparr>duration = JFloat (float_of_decimal 180 1),
                    distance = JFloat (float_of_decimal 1500 1),
                    expected_duration = Finite False 7599824371187712 (- 46),
                    congestion = Finite False 4691249611844266 (- 46)\<rparr>)"
    using congestion_formula [of delhi_route _ _ _ _ "JFloat (float_of_decimal 180 1)"
        "JFloat (float_of_decimal 1500 1)" "float_of_decimal 180 1" delhi_env ?la ?lo ?req]
      x c
    by (simp add: delhi_route_def route_of_def delhi_env_def traffic_request_float)
  have b: "get_traffic_data (serve (Inr delhi_weather) (Inr delhi_pollution)
        (Inr (route_of (JInt 0) (JInt 0))) (Inr delhi_feed)) ?la ?lo =
     Inr ([StErrorExn ''Failed to retrieve traffic data: '' ZeroDivisionError], None)"
    using congestion_formula [of "route_of (JInt 0) (JInt 0)" _ _ _ _ "JInt 0" "JInt 0"
        "Finite False 0 (- 1074)" "serve (Inr delhi_weather) (Inr delhi_pollution)
        (Inr (route_of (JInt 0) (JInt 0))) (Inr delhi_feed)" ?la ?lo ?req]
    by (simp add: route_of_def traffic_request_float is_zero_number_def int_to_float_def)
  from a b show ?thesis by simp
qed

text \<open>
  A distance of \<open>1e-321\<close> meters, not zero: the first division underflows to \<open>0.0\<close>, the
  expected duration is \<open>0.0\<close>, and no congestion is computed.
\<close>

theorem congestion_formula_counterexample:
  "\<not> is_zero_number (JFloat (Finite False 202 (- 1074)))
   \<and> get_traffic_data (serve (Inr delhi_weather) (Inr delhi_pollution)
        (Inr (route_of (JFloat (float_of_decimal 180 1)) (JFloat (Finite False 202 (- 1074)))))
        (Inr delhi_feed))
        (JFloat (float_of_decimal 286 10)) (JFloat (float_of_decimal 772 10)) =
     Inr ([StErrorExn ''Failed to retrieve traffic data: '' ZeroDivisionError], None)"
proof -
  have x: "expected_duration_of (JFloat (Finite False 202 (- 1074))) =
      Inr (Finite False 0 (- 1074))"
    by (simp add: expected_duration_of_def fl_eval)
  have t: "as_float (JFloat (float_of_decimal 180 1)) = Inr (float_of_decimal 180 1)"
    by simp
  show ?thesis
    by (simp add: is_zero_number_def get_traffic_data_built [OF traffic_request_float]
        route_of_def traffic_body_def has_features_def route_summary_def route_estimate_def
        x congestion_of_cases [OF t] traffic_outcome_def)
qed

text \<open>
  C2, as the code has it. Whenever \<open>get_pollution_data\<close> returns, the result is either
  \<open>None\<close> three times with one of the two messages, or, with no message, the triple
  \<open>(list[0].components, coord.lat, coord.lon)\<close> exactly as the two responses carry it.
  The values are not inspected, so a \<open>null\<close> upstream is handed on beside the others.
\<close>

theorem pollution_result_shape:
  assumes "get_pollution_data e city = Inr (w, components, lat, lon)"
  shows "(components = JNull \<and> lat = JNull \<and> lon = JNull
            \<and> (w = [StError ''City not found or invalid API key.'']
                 \<or> w = [StError ''Pollution data not available for the selected city.'']))
       \<or> (w = [] \<and> (\<exists>city_response coord pollution_response l first.
            requests_get_json e (Weather city (OPENWEATHERMAP_API_KEY e)) = Inr city_response
            \<and> getitem city_response ''coord'' = Inr coord
            \<and> getitem coord ''lat'' = Inr lat \<and> getitem coord ''lon'' = Inr lon
            \<and> requests_get_json e (AirPollution lat lon (OPENWEATHERMAP_API_KEY e)) =
                Inr pollution_response
            \<and> getitem pollution_response ''list'' = Inr l \<and> getitem0 l = Inr first
            \<and> getitem first ''components'' = Inr components))"
  using assms
  by (auto simp: get_pollution_data_def then_e_def has_list_def split: sum.splits if_splits)

theorem pollution_result_shape_witness:
  "get_pollution_data delhi_env ''Delhi'' =
     Inr ([], JObj [(''pm2_5'', JFloat (float_of_decimal 452 10)), (''co'', JFloat (float_of_decimal 2001 10))], JFloat (float_of_decimal 286 10), JFloat (float_of_decimal 772 10))
   \<and> (\<exists>city_response coord pollution_response l first.
        requests_get_json delhi_env (Weather ''Delhi'' (OPENWEATHERMAP_API_KEY delhi_env)) =
          Inr city_response
        \<and> getitem city_response ''coord'' = Inr coord
        \<and> getitem coord ''lat'' = Inr (JFloat (float_of_decimal 286 10)) \<and> getitem coord ''lon'' = Inr (JFloat (float_of_decimal 772 10))
        \<and> requests_get_json delhi_env
            (AirPollution (JFloat (float_of_decimal 286 10)) (JFloat (float_of_decimal 772 10)) (OPENWEATHERMAP_API_KEY delhi_env)) =
            Inr pollution_response
        \<and> getitem pollution_response ''list'' = Inr l \<and> getitem0 l = Inr first
        \<and> getitem first ''components'' =
            Inr (JObj [(''pm2_5'', JFloat (float_of_decimal 452 10)), (''co'', JFloat (float_of_decimal 2001 10))]))"
proof -
  have r: "get_pollution_data delhi_env ''Delhi'' =
     Inr ([], JObj [(''pm2_5'', JFloat (float_of_decimal 452 10)), (''co'', JFloat (float_of_decimal 2001 10))], JFloat (float_of_decimal 286 10), JFloat (float_of_decimal 772 10))"
    by (simp add: get_pollution_data_def has_list_def delhi_env_def delhi_weather_def
        delhi_pollution_def)
  from pollution_result_shape [OF r] r show ?thesis by simp
qed

text \<open>
  A pollution response whose first entry has \<open>components: null\<close>: the coordinates come
  back without a pollutant mapping.
\<close>

theorem pollution_partial_counterexample:
  "get_pollution_data (serve (Inr delhi_weather) (Inr null_components_pollution)
       (Inr delhi_route) (Inr delhi_feed)) ''Delhi'' =
     Inr ([], JNull, JFloat (float_of_decimal 286 10), JFloat (float_of_decimal 772 10))"
  by (simp add: get_pollution_data_def has_list_def delhi_weather_def
      null_components_pollution_def)

text \<open>
  C3, as the code has it. \<open>get_traffic_data\<close> contains every exception of the request
  and of the handling of the response: once the request is built, it returns. Coordinates
  that are floats always build it. A response that is a dict without \<open>features\<close> or with
  an empty one, or a list without the string, gives \<open>None\<close> with "No route found in the
  API response."; a response that is \<open>null\<close>, a bool or a number makes the test of line 65
  raise \<open>TypeError\<close>, and an exception of the request is caught the same way: \<open>None\<close>
  with the message built from the exception. Only line 53, before the \<open>try\<close>, raises to
  the caller, when a coordinate does not convert to a double.
\<close>

theorem traffic_containment:
  "(\<forall>req. traffic_request e lat lon = Inr req \<longrightarrow>
       (\<exists>w r. get_traffic_data e lat lon = Inr (w, r))
     \<and> (\<forall>kvs. requests_get_json e req = Inr (JObj kvs)
            \<and> (map_of kvs ''features'' = None
                 \<or> (\<exists>v. map_of kvs ''features'' = Some v \<and> \<not> truthy v)) \<longrightarrow>
          get_traffic_data e lat lon =
            Inr ([StError ''No route found in the API response.''], None))
     \<and> (\<forall>xs. requests_get_json e req = Inr (JArr xs) \<and> JStr ''features'' \<notin> set xs \<longrightarrow>
          get_traffic_data e lat lon =
            Inr ([StError ''No route found in the API response.''], None))
     \<and> (\<forall>response. requests_get_json e req = Inr response
            \<and> (response = JNull \<or> (\<exists>b. response = JBool b) \<or> (\<exists>i. response = JInt i)
                 \<or> (\<exists>x. response = JFloat x)) \<longrightarrow>
          get_traffic_data e lat lon =
            Inr ([StErrorExn ''Failed to retrieve traffic data: '' TypeError], None))
     \<and> (\<forall>ex. requests_get_json e req = Inl ex \<longrightarrow>
          get_traffic_data e lat lon =
            Inr ([StErrorExn ''Failed to retrieve traffic data: '' ex], None)))
   \<and> (\<forall>la lo. lat = JFloat la \<and> lon = JFloat lo \<longrightarrow>
         (\<exists>req. traffic_request e lat lon = Inr req))
   \<and> (\<forall>ex. traffic_request e lat lon = Inl ex \<longrightarrow> get_traffic_data e lat lon = Inl ex)"
proof (intro conjI allI impI)
  fix req
  assume b: "traffic_request e lat lon = Inr req"
  show "\<exists>w r. get_traffic_data e lat lon = Inr (w, r)"
    unfolding get_traffic_data_built [OF b] using traffic_outcome_total by simp
  {
    fix kvs
    assume "requests_get_json e req = Inr (JObj kvs)
            \<and> (map_of kvs ''features'' = None
                 \<or> (\<exists>v. map_of kvs ''features'' = Some v \<and> \<not> truthy v))"
    then show "get_traffic_data e lat lon =
        Inr ([StError ''No route found in the API response.''], None)"
      by (auto simp: get_traffic_data_built [OF b] traffic_body_def has_features_def
          traffic_outcome_def)
  }
  {
    fix xs
    assume "requests_get_json e req = Inr (JArr xs) \<and> JStr ''features'' \<notin> set xs"
    then show "get_traffic_data e lat lon =
        Inr ([StError ''No route found in the API response.''], None)"
      by (simp add: get_traffic_data_built [OF b] traffic_body_def has_features_def
          traffic_outcome_def)
  }
  {
    fix response
    assume "requests_get_json e req = Inr response
            \<and> (response = JNull \<or> (\<exists>b. response = JBool b) \<or> (\<exists>i. response = JInt i)
                 \<or> (\<exists>x. response = JFloat x))"
    then show "get_traffic_data e lat lon =
        Inr ([StErrorExn ''Failed to retrieve traffic data: '' TypeError], None)"
      by (auto simp: get_traffic_data_built [OF b] traffic_body_def has_features_def
          traffic_outcome_def)
  }
  {
    fix ex
    assume "requests_get_json e req = Inl ex"
    then show "get_traffic_data e lat lon =
        Inr ([StErrorExn ''Failed to retrieve traffic data: '' ex], None)"
      by (simp add: get_traffic_data_built [OF b] traffic_outcome_def)
  }
next
  fix la lo
  assume "lat = JFloat la \<and> lon = JFloat lo"
  then show "\<exists>req. traffic_request e lat lon = Inr req"
    by (simp add: traffic_request_float)
next
  fix ex
  assume "traffic_request e lat lon = Inl ex"
  then show "get_traffic_data e lat lon = Inl ex"
    by (rule get_traffic_data_not_built)
qed

theorem traffic_containment_witness:
  "get_traffic_data (serve (Inr delhi_weather) (Inr delhi_pollution)
       (Inr (JObj [(''error'', JStr ''Route could not be found'')])) (Inr delhi_feed))
     (JFloat (float_of_decimal 286 10)) (JFloat (float_of_decimal 772 10)) =
     Inr ([StError ''No route found in the API response.''], None)
   \<and> get_traffic_data (serve (Inr delhi_weather) (Inr delhi_pollution) (Inr JNull)
       (Inr delhi_feed))
     (JFloat (float_of_decimal 286 10)) (JFloat (float_of_decimal 772 10)) =
     Inr ([StErrorExn ''Failed to retrieve traffic data: '' TypeError], None)
   \<and> get_traffic_data offline_env
     (JFloat (float_of_decimal 286 10)) (JFloat (float_of_decimal 772 10)) =
     Inr ([StErrorExn ''Failed to retrieve traffic data: ''
            (RequestException ''Connection refused'')], None)
   \<and> get_traffic_data delhi_env (JInt (2 ^ 1024)) (JInt 77) = Inl OverflowError"
proof -
  let ?la = "JFloat (float_of_decimal 286 10)" and ?lo = "JFloat (float_of_decimal 772 10)"
  let ?req = "Directions (Some ''ors'') (?lo, ?la)
      (fl_add (float_of_decimal 772 10) (float_of_decimal 1 100),
       fl_add (float_of_decimal 286 10) (float_of_decimal 1 100))"
  have o: "traffic_request delhi_env (JInt (2 ^ 1024)) (JInt 77) = Inl OverflowError"
    unfolding traffic_request_def by (simp add: fl_eval)
  show ?thesis
    using traffic_containment [of "serve (Inr delhi_weather) (Inr delhi_pollution)
         (Inr (JObj [(''error'', JStr ''Route could not be found'')])) (Inr delhi_feed)"
         ?la ?lo]
      traffic_containment [of "serve (Inr delhi_weather) (Inr delhi_pollution) (Inr JNull)
         (Inr delhi_feed)" ?la ?lo]
      traffic_containment [of offline_env ?la ?lo]
      traffic_containment [of delhi_env "JInt (2 ^ 1024)" "JInt 77"] o
    by (simp add: traffic_request_float offline_env_def)
qed

text \<open>
  Coordinates that arrive as strings, as the render would pass them on from a weather
  response that carries them so: line 53 raises \<open>TypeError\<close> before the \<open>try\<close>.
\<close>

theorem traffic_containment_counterexample:
  "get_traffic_data delhi_env (JStr ''28.6'') (JStr ''77.2'') = Inl TypeError"
  by (simp add: get_traffic_data_def traffic_request_def)

text \<open>
  C4, as the code has it. A response whose status is present and is not \<open>"ok"\<close> gives
  \<open>None\<close> and no rows. A response with status \<open>"ok"\<close> that carries \<open>data.aqi\<close> and a list
  \<open>data.forecast.daily.pm25\<close> whose entries all have \<open>day\<close> and \<open>avg\<close> gives the current
  AQI and one row per entry, in the order of the list.
\<close>

theorem aqi_history_outcomes:
  assumes "requests_get_json e (Feed city (WAQI_API_TOKEN e)) = Inr response"
  shows "(\<forall>status. getitem response ''status'' = Inr status \<and> status \<noteq> JStr ''ok'' \<longrightarrow>
            get_historical_aqi e city =
              Inr ([StError ''Failed to fetch historical AQI data.''], JNull, []))
    \<and> (getitem response ''status'' = Inr (JStr ''ok'')
         \<and> getitem response ''data'' = Inr d \<and> getitem d ''aqi'' = Inr current
         \<and> getitem d ''forecast'' = Inr f \<and> getitem f ''daily'' = Inr daily
         \<and> getitem daily ''pm25'' = Inr (JArr entries)
         \<and> (\<forall>entry\<in>set entries.
               \<exists>dy av. getitem entry ''day'' = Inr dy \<and> getitem entry ''avg'' = Inr av) \<longrightarrow>
         (\<exists>rows. get_historical_aqi e city = Inr ([], current, rows)
            \<and> list_all2 sample_of_entry entries rows))"
proof (intro conjI allI impI)
  fix status
  assume "getitem response ''status'' = Inr status \<and> status \<noteq> JStr ''ok''"
  then show "get_historical_aqi e city =
      Inr ([StError ''Failed to fetch historical AQI data.''], JNull, [])"
    by (simp add: get_historical_aqi_response [OF assms])
next
  assume h: "getitem response ''status'' = Inr (JStr ''ok'')
         \<and> getitem response ''data'' = Inr d \<and> getitem d ''aqi'' = Inr current
         \<and> getitem d ''forecast'' = Inr f \<and> getitem f ''daily'' = Inr daily
         \<and> getitem daily ''pm25'' = Inr (JArr entries)
         \<and> (\<forall>entry\<in>set entries.
               \<exists>dy av. getitem entry ''day'' = Inr dy \<and> getitem entry ''avg'' = Inr av)"
  then obtain rows where "aqi_loop entries [] = Inr ([] @ rows)" and "list_all2 sample_of_entry entries rows"
    using aqi_loop_rows [of entries "[]"] by blast
  with h show "\<exists>rows. get_historical_aqi e city = Inr ([], current, rows)
            \<and> list_all2 sample_of_entry entries rows"
    by (simp add: get_historical_aqi_response [OF assms])
qed

theorem aqi_history_outcomes_witness:
  "get_historical_aqi (serve (Inr delhi_weather) (Inr delhi_pollution) (Inr delhi_route)
       (Inr error_feed)) ''Delhi'' =
     Inr ([StError ''Failed to fetch historical AQI data.''], JNull, [])
   \<and> (\<exists>rows. get_historical_aqi delhi_env ''Delhi'' = Inr ([], JInt 152, rows)
        \<and> list_all2 sample_of_entry
             [JObj [(''avg'', JInt 150), (''day'', JStr ''2024-10-01'')],
              JObj [(''avg'', JInt 160), (''day'', JStr ''2024-10-02'')]] rows)"
  using aqi_history_outcomes [of "serve (Inr delhi_weather) (Inr delhi_pollution)
        (Inr delhi_route) (Inr error_feed)" "''Delhi''" error_feed]
    aqi_history_outcomes [of delhi_env "''Delhi''" delhi_feed
      "JObj [(''aqi'', JInt 152),
              (''forecast'', JObj [(''daily'', JObj [(''pm25'',
                 JArr [JObj [(''avg'', JInt 150), (''day'', JStr ''2024-10-01'')],
                       JObj [(''avg'', JInt 160), (''day'', JStr ''2024-10-02'')]])])])]"
      "JInt 152"
      "JObj [(''daily'', JObj [(''pm25'',
                 JArr [JObj [(''avg'', JInt 150), (''day'', JStr ''2024-10-01'')],
                       JObj [(''avg'', JInt 160), (''day'', JStr ''2024-10-02'')]])])]"
      "JObj [(''pm25'',
                 JArr [JObj [(''avg'', JInt 150), (''day'', JStr ''2024-10-01'')],
                       JObj [(''avg'', JInt 160), (''day'', JStr ''2024-10-02'')]])]"
      "[JObj [(''avg'', JInt 150), (''day'', JStr ''2024-10-01'')],
        JObj [(''avg'', JInt 160), (''day'', JStr ''2024-10-02'')]]"]
  by (simp add: delhi_env_def delhi_feed_def error_feed_def)

text \<open>
  A feed with status \<open>"ok"\<close> and no forecast: the function raises instead of returning
  rows.
\<close>

theorem aqi_history_counterexample:
  "getitem no_forecast_feed ''status'' = Inr (JStr ''ok'')
   \<and> get_historical_aqi (serve (Inr delhi_weather) (Inr delhi_pollution)
        (Inr delhi_route) (Inr no_forecast_feed)) ''Delhi'' =
       Inl (KeyError (JStr ''forecast''))"
  by (simp add: get_historical_aqi_def no_forecast_feed_def)




text \<open>
  C6, as the code has it. For every origin whose coordinates are floats, the destination
  sent to the routing endpoint is, longitude first, the double sum of each coordinate and
  the double nearest to 0.01, and the result of \<open>get_traffic_data\<close> is decided by the
  answer to that one request. For a coordinate of at most 180 degrees either way the sum
  is finite and within \<open>2^-45\<close> of the coordinate plus 0.01; it is not in general that
  number, nor the double nearest to it.
\<close>

theorem synthetic_destination:
  "traffic_request e (JFloat la) (JFloat lo) =
     Inr (Directions (OPENROUTESERVICE_API_KEY e) (JFloat lo, JFloat la)
            (fl_add lo (float_of_decimal 1 100), fl_add la (float_of_decimal 1 100)))
   \<and> get_traffic_data e (JFloat la) (JFloat lo) =
     Inr (traffic_outcome (then_e (requests_get_json e
       (Directions (OPENROUTESERVICE_API_KEY e) (JFloat lo, JFloat la)
          (fl_add lo (float_of_decimal 1 100), fl_add la (float_of_decimal 1 100))))
       traffic_body))
   \<and> (\<forall>s m ex. lo = Finite s m ex \<and> \<bar>fl_val s m ex\<bar> \<le> 180 \<longrightarrow>
        (\<exists>s' m' e'. fl_add lo (float_of_decimal 1 100) = Finite s' m' e'
           \<and> \<bar>fl_val s' m' e' - (fl_val s m ex + 1 / 100)\<bar> \<le> 2 powi (- 45)))
   \<and> (\<forall>s m ex. la = Finite s m ex \<and> \<bar>fl_val s m ex\<bar> \<le> 180 \<longrightarrow>
        (\<exists>s' m' e'. fl_add la (float_of_decimal 1 100) = Finite s' m' e'
           \<and> \<bar>fl_val s' m' e' - (fl_val s m ex + 1 / 100)\<bar> \<le> 2 powi (- 45)))"
  using offset_close
  by (simp add: traffic_request_float get_traffic_data_built [OF traffic_request_float]
      del: fl_add.simps)

theorem synthetic_destination_witness:
  "traffic_request delhi_env (JFloat (float_of_decimal 286 10))
       (JFloat (float_of_decimal 772 10)) =
     Inr (Directions (Some ''ors'')
            (JFloat (float_of_decimal 772 10), JFloat (float_of_decimal 286 10))
            (Finite False 5433170737957438 (- 46), Finite False 8052999083691869 (- 48)))"
proof -
  have "fl_add (float_of_decimal 772 10) (float_of_decimal 1 100) =
      Finite False 5433170737957438 (- 46)"
    and "fl_add (float_of_decimal 286 10) (float_of_decimal 1 100) =
      Finite False 8052999083691869 (- 48)"
    by (simp_all add: fl_eval)
  with synthetic_destination [of delhi_env "float_of_decimal 286 10" "float_of_decimal 772 10"]
  show ?thesis by (simp add: delhi_env_def)
qed

text \<open>
  The origin (28.6, 77.2): the destination sent is 77.21000000000001,
  28.610000000000003. Neither is the double that 77.21 or 28.61 is read as, and the
  longitude sent is not the longitude plus 0.01.
\<close>

theorem synthetic_destination_counterexample:
  "traffic_request delhi_env (JFloat (Finite False 8050184333924762 (- 48)))
       (JFloat (Finite False 5432467050515661 (- 46))) =
     Inr (Directions (Some ''ors'')
            (JFloat (Finite False 5432467050515661 (- 46)),
             JFloat (Finite False 8050184333924762 (- 48)))
            (Finite False 5433170737957438 (- 46), Finite False 8052999083691869 (- 48)))
   \<and> float_of_decimal 772 10 = Finite False 5432467050515661 (- 46)
   \<and> float_of_decimal 286 10 = Finite False 8050184333924762 (- 48)
   \<and> float_of_decimal 7721 100 = Finite False 5433170737957437 (- 46)
   \<and> float_of_decimal 2861 100 = Finite False 8052999083691868 (- 48)
   \<and> fl_val False 5433170737957438 (- 46) \<noteq> fl_val False 5432467050515661 (- 46) + 1 / 100"
proof -
  have "fl_add (Finite False 5432467050515661 (- 46)) (float_of_decimal 1 100) =
      Finite False 5433170737957438 (- 46)"
    and "fl_add (Finite False 8050184333924762 (- 48)) (float_of_decimal 1 100) =
      Finite False 8052999083691869 (- 48)"
    by (simp_all add: fl_eval)
  moreover have "float_of_decimal 772 10 = Finite False 5432467050515661 (- 46)"
    and "float_of_decimal 286 10 = Finite False 8050184333924762 (- 48)"
    and "float_of_decimal 7721 100 = Finite False 5433170737957437 (- 46)"
    and "float_of_decimal 2861 100 = Finite False 8052999083691868 (- 48)"
    by (simp_all add: fl_eval)
  moreover have "fl_val False 5433170737957438 (- 46) \<noteq>
      fl_val False 5432467050515661 (- 46) + 1 / 100"
    by (simp add: fl_val_def smant_def power_int_def field_simps)
  ultimately show ?thesis
    by (simp add: traffic_request_float delhi_env_def del: fl_add.simps)
qed

text \<open>
  C7. A history of 16 rows, cut to its last seven for the trend view, is exactly rows 10
  to 16 of the input: the window is the input without its first nine rows, it has seven
  rows, and its i-th row is the input's row 9 + i.
\<close>

theorem last_7_days_of_16:
  assumes "length df = 16"
  shows "last_7_days df = drop 9 df \<and> length (last_7_days df) = 7
    \<and> (\<forall>i<7. last_7_days df ! i = df ! (9 + i))"
  using assms by (simp add: last_7_days_def iloc_from_def)

theorem last_7_days_of_16_witness:
  "last_7_days [1, 2, 3, 4, 5, 6, 7, 8, 9, 10, 11, 12, 13, 14, 15, 16 :: nat] =
     [10, 11, 12, 13, 14, 15, 16]"
  using last_7_days_of_16 [of "[1, 2, 3, 4, 5, 6, 7, 8, 9, 10, 11, 12, 13, 14, 15, 16 :: nat]"]
  by simp

text \<open>
  C8. A failure of the transport is contained in \<open>get_traffic_data\<close> only. In
  \<open>get_pollution_data\<close> an exception of the first or of the second request, and in
  \<open>get_historical_aqi\<close> an exception of its request, leaves the function as it is.
\<close>

theorem transport_failure_propagates:
  "(requests_get_json e (Weather city (OPENWEATHERMAP_API_KEY e)) = Inl ex \<longrightarrow>
      get_pollution_data e city = Inl ex)
   \<and> (requests_get_json e (Weather city (OPENWEATHERMAP_API_KEY e)) = Inr city_response
        \<and> getitem city_response ''coord'' = Inr coord
        \<and> getitem coord ''lat'' = Inr lat \<and> getitem coord ''lon'' = Inr lon
        \<and> requests_get_json e (AirPollution lat lon (OPENWEATHERMAP_API_KEY e)) = Inl ex \<longrightarrow>
      get_pollution_data e city = Inl ex)
   \<and> (requests_get_json e (Feed city (WAQI_API_TOKEN e)) = Inl ex \<longrightarrow>
      get_historical_aqi e city = Inl ex)
   \<and> (requests_get_json e
        (Directions (OPENROUTESERVICE_API_KEY e) (JFloat lo, JFloat la)
           (fl_add lo (float_of_decimal 1 100), fl_add la (float_of_decimal 1 100))) =
        Inl ex \<longrightarrow>
      get_traffic_data e (JFloat la) (JFloat lo) =
        Inr ([StErrorExn ''Failed to retrieve traffic data: '' ex], None))"
proof (intro conjI impI)
  assume "requests_get_json e (Weather city (OPENWEATHERMAP_API_KEY e)) = Inl ex"
  then show "get_pollution_data e city = Inl ex"
    by (simp add: get_pollution_data_def)
next
  assume "requests_get_json e (Weather city (OPENWEATHERMAP_API_KEY e)) = Inr city_response
        \<and> getitem city_response ''coord'' = Inr coord
        \<and> getitem coord ''lat'' = Inr lat \<and> getitem coord ''lon'' = Inr lon
        \<and> requests_get_json e (AirPollution lat lon (OPENWEATHERMAP_API_KEY e)) = Inl ex"
  then show "get_pollution_data e city = Inl ex"
    by (simp add: get_pollution_data_def getitem_py_in)
next
  assume "requests_get_json e (Feed city (WAQI_API_TOKEN e)) = Inl ex"
  then show "get_historical_aqi e city = Inl ex"
    by (simp add: get_historical_aqi_def)
next
  assume "requests_get_json e
        (Directions (OPENROUTESERVICE_API_KEY e) (JFloat lo, JFloat la)
           (fl_add lo (float_of_decimal 1 100), fl_add la (float_of_decimal 1 100))) =
        Inl ex"
  then show "get_traffic_data e (JFloat la) (JFloat lo) =
        Inr ([StErrorExn ''Failed to retrieve traffic data: '' ex], None)"
    by (simp add: get_traffic_data_built [OF traffic_request_float] traffic_outcome_def)
qed

theorem transport_failure_propagates_witness:
  "get_pollution_data offline_env ''Delhi'' = Inl (RequestException ''Connection refused'')
   \<and> get_pollution_data (serve (Inr delhi_weather) (Inl (RequestException ''Read timed out''))
        (Inr delhi_route) (Inr delhi_feed)) ''Delhi'' =
       Inl (RequestException ''Read timed out'')
   \<and> get_historical_aqi offline_env ''Delhi'' = Inl (RequestException ''Connection refused'')
   \<and> get_traffic_data offline_env (JFloat (float_of_decimal 286 10))
        (JFloat (float_of_decimal 772 10)) =
       Inr ([StErrorExn ''Failed to retrieve traffic data: ''
              (RequestException ''Connection refused'')], None)"
  using transport_failure_propagates [of offline_env "''Delhi''"
      "RequestException ''Connection refused''" delhi_weather
      "JObj [(''lat'', JFloat (float_of_decimal 286 10)),
             (''lon'', JFloat (float_of_decimal 772 10))]"
      "JFloat (float_of_decimal 286 10)" "JFloat (float_of_decimal 772 10)"
      "float_of_decimal 772 10" "float_of_decimal 286 10"]
    transport_failure_propagates [of "serve (Inr delhi_weather)
        (Inl (RequestException ''Read timed out'')) (Inr delhi_route) (Inr delhi_feed)"
      "''Delhi''" "RequestException ''Read timed out''" delhi_weather
      "JObj [(''lat'', JFloat (float_of_decimal 286 10)),
             (''lon'', JFloat (float_of_decimal 772 10))]"
      "JFloat (float_of_decimal 286 10)" "JFloat (float_of_decimal 772 10)"
      "float_of_decimal 772 10" "float_of_decimal 286 10"]
  by (simp add: offline_env_def delhi_weather_def)

text \<open>
  C9. \<open>get_historical_aqi\<close> trusts the shape of the response beyond the status. A
  response without \<open>status\<close>, or with status \<open>"ok"\<close> and without \<open>data\<close>, \<open>data.aqi\<close>,
  \<open>data.forecast\<close>, \<open>data.forecast.daily\<close> or \<open>data.forecast.daily.pm25\<close>, raises
  \<open>KeyError\<close> on the missing key; nothing is returned.
\<close>

theorem aqi_shape_assumed:
  assumes "requests_get_json e (Feed city (WAQI_API_TOKEN e)) = Inr response"
  shows "(lacks response ''status'' \<longrightarrow>
            get_historical_aqi e city = Inl (KeyError (JStr ''status'')))
    \<and> (getitem response ''status'' = Inr (JStr ''ok'') \<and> lacks response ''data'' \<longrightarrow>
            get_historical_aqi e city = Inl (KeyError (JStr ''data'')))
    \<and> (getitem response ''status'' = Inr (JStr ''ok'') \<and> getitem response ''data'' = Inr d
         \<and> lacks d ''aqi'' \<longrightarrow>
            get_historical_aqi e city = Inl (KeyError (JStr ''aqi'')))
    \<and> (getitem response ''status'' = Inr (JStr ''ok'') \<and> getitem response ''data'' = Inr d
         \<and> getitem d ''aqi'' = Inr current \<and> lacks d ''forecast'' \<longrightarrow>
            get_historical_aqi e city = Inl (KeyError (JStr ''forecast'')))
    \<and> (getitem response ''status'' = Inr (JStr ''ok'') \<and> getitem response ''data'' = Inr d
         \<and> getitem d ''aqi'' = Inr current \<and> getitem d ''forecast'' = Inr f
         \<and> lacks f ''daily'' \<longrightarrow>
            get_historical_aqi e city = Inl (KeyError (JStr ''daily'')))
    \<and> (getitem response ''status'' = Inr (JStr ''ok'') \<and> getitem response ''data'' = Inr d
         \<and> getitem d ''aqi'' = Inr current \<and> getitem d ''forecast'' = Inr f
         \<and> getitem f ''daily'' = Inr daily \<and> lacks daily ''pm25'' \<longrightarrow>
            get_historical_aqi e city = Inl (KeyError (JStr ''pm25'')))"
  by (simp add: get_historical_aqi_response [OF assms] getitem_lacks)

theorem aqi_shape_assumed_witness:
  "get_historical_aqi (serve (Inr delhi_weather) (Inr delhi_pollution) (Inr delhi_route)
       (Inr (JObj [(''message'', JStr ''Invalid key'')]))) ''Delhi'' =
     Inl (KeyError (JStr ''status''))
   \<and> get_historical_aqi (serve (Inr delhi_weather) (Inr delhi_pollution)
       (Inr delhi_route)
       (Inr (JObj [(''status'', JStr ''ok''),
          (''data'', JObj [(''forecast'', JObj [(''daily'', JObj [(''pm25'', JArr [])])])])])))
       ''Delhi'' =
     Inl (KeyError (JStr ''aqi''))
   \<and> get_historical_aqi (serve (Inr delhi_weather) (Inr delhi_pollution)
       (Inr delhi_route)
       (Inr (JObj [(''status'', JStr ''ok''),
          (''data'', JObj [(''aqi'', JInt 152), (''forecast'', JObj [(''daily'',
             JObj [(''o3'', JArr [])])])])]))) ''Delhi'' =
     Inl (KeyError (JStr ''pm25''))"
  using aqi_shape_assumed [of "serve (Inr delhi_weather) (Inr delhi_pollution)
        (Inr delhi_route) (Inr (JObj [(''message'', JStr ''Invalid key'')]))"
      "''Delhi''" "JObj [(''message'', JStr ''Invalid key'')]"]
    aqi_shape_assumed [of "serve (Inr delhi_weather) (Inr delhi_pollution)
        (Inr delhi_route)
        (Inr (JObj [(''status'', JStr ''ok''),
          (''data'', JObj [(''forecast'', JObj [(''daily'', JObj [(''pm25'', JArr [])])])])]))"
      "''Delhi''"
      "JObj [(''status'', JStr ''ok''),
          (''data'', JObj [(''forecast'', JObj [(''daily'', JObj [(''pm25'', JArr [])])])])]"
      "JObj [(''forecast'', JObj [(''daily'', JObj [(''pm25'', JArr [])])])]"]
    aqi_shape_assumed [of "serve (Inr delhi_weather) (Inr delhi_pollution)
        (Inr delhi_route)
        (Inr (JObj [(''status'', JStr ''ok''),
          (''data'', JObj [(''aqi'', JInt 152), (''forecast'', JObj [(''daily'',
             JObj [(''o3'', JArr [])])])])]))"
      "''Delhi''"
      "JObj [(''status'', JStr ''ok''),
          (''data'', JObj [(''aqi'', JInt 152), (''forecast'', JObj [(''daily'',
             JObj [(''o3'', JArr [])])])])]"
      "JObj [(''aqi'', JInt 152), (''forecast'', JObj [(''daily'', JObj [(''o3'', JArr [])])])]"
      "JInt 152" "JObj [(''daily'', JObj [(''o3'', JArr [])])]" "JObj [(''o3'', JArr [])]"]
  by (simp add: lacks_def)

text \<open>
  C10. When \<open>get_pollution_data\<close> returned coordinates and \<open>get_historical_aqi\<close>
  returned \<open>None\<close> for the current AQI, the render never completes: if the sidebar is
  drawn, line 212 compares \<open>None > 100\<close> and the render ends in \<open>TypeError\<close>.
\<close>

theorem render_aborts_on_absent_aqi:
  assumes "get_historical_aqi e city = Inr (hw, JNull, df)"
    and "get_pollution_data e city = Inr (pw, components, lat, lon)"
    and "lat \<noteq> JNull" and "lon \<noteq> JNull"
  shows "(\<exists>ex. render e city = Inl ex)
    \<and> (\<forall>sw df'. sidebar e JNull components df = Inr (sw, df') \<longrightarrow>
          main_content e city JNull df' components lat lon = Inl TypeError
          \<and> render e city = Inl TypeError)"
proof -
  have m: "main_content e city JNull df' components lat lon = Inl TypeError" for df'
    using assms(3,4) by (simp add: main_content_def)
  have r: "render e city =
      then_e (sidebar e JNull components df) (\<lambda>sb. Inl TypeError)"
    by (simp add: render_def assms(1,2) m)
  show ?thesis
    by (cases "sidebar e JNull components df") (auto simp: r m)
qed

theorem render_aborts_on_absent_aqi_witness:
  "render (serve (Inr delhi_weather) (Inr delhi_pollution) (Inr delhi_route)
       (Inr error_feed)) ''Delhi'' = Inl TypeError"
proof -
  let ?e = "serve (Inr delhi_weather) (Inr delhi_pollution) (Inr delhi_route)
       (Inr error_feed)"
  have h: "get_historical_aqi ?e ''Delhi'' =
      Inr ([StError ''Failed to fetch historical AQI data.''], JNull, [])"
    by (simp add: get_historical_aqi_def error_feed_def)
  have p: "get_pollution_data ?e ''Delhi'' =
      Inr ([], JObj [(''pm2_5'', JFloat (float_of_decimal 452 10)), (''co'', JFloat (float_of_decimal 2001 10))], JFloat (float_of_decimal 286 10), JFloat (float_of_decimal 772 10))"
    by (simp add: get_pollution_data_def has_list_def delhi_weather_def delhi_pollution_def)
  have s: "sidebar ?e JNull (JObj [(''pm2_5'', JFloat (float_of_decimal 452 10)), (''co'', JFloat (float_of_decimal 2001 10))]) [] =
      Inr ([SidebarMetric ''PM2.5 Level'' (JFloat (float_of_decimal 452 10))], [])"
    by (simp add: sidebar_def)
  from render_aborts_on_absent_aqi [OF h p] s show ?thesis by simp
qed

end
